theory Spec2Isabelle
  imports Complex_Main
begin


section \<open>The page script (static/js/app.js)\<close>

text \<open>
  The script keeps its session in two module variables (\<^verbatim>\<open>currentFileId\<close>,
  \<^verbatim>\<open>processCheckInterval\<close>), in \<^verbatim>\<open>window.selectedFile\<close> and in the properties of the
  page elements it looked up at load time. The record below holds those, and the part of
  the browser the script talks to: the interval timers that are registered and not
  cleared, the requests that were dispatched and have not settled, and the pending
  one-shot timers. \<open>errorsShown\<close> lists the messages passed to \<^verbatim>\<open>showError\<close>, in order.
  A timer handle is a positive number, so a stored handle counts as true in a test.

  The second copy of the script in the repository differs in \<^verbatim>\<open>showError\<close> only (it
  hands the same message to the notification layer when that is loaded, and logs it);
  the functions modelled here read the same in both.
\<close>

subsection \<open>Strings\<close>

definition toLowerCase :: "string \<Rightarrow> string" where
  \<comment> \<open>letters A to Z; no other character lowers to a dot, a t or an x\<close>
  "toLowerCase s =
     map (\<lambda>c. case map_of (zip ''ABCDEFGHIJKLMNOPQRSTUVWXYZ'' ''abcdefghijklmnopqrstuvwxyz'') c of
                 None \<Rightarrow> c
               | Some l \<Rightarrow> l) s"

definition toUpperCase :: "string \<Rightarrow> string" where
  \<comment> \<open>letters a to z\<close>
  "toUpperCase s =
     map (\<lambda>c. case map_of (zip ''abcdefghijklmnopqrstuvwxyz'' ''ABCDEFGHIJKLMNOPQRSTUVWXYZ'') c of
                 None \<Rightarrow> c
               | Some u \<Rightarrow> u) s"

fun startsWith :: "string \<Rightarrow> string \<Rightarrow> bool" where
  "startsWith s [] = True"
| "startsWith [] (p # ps) = False"
| "startsWith (c # cs) (p # ps) = (c = p \<and> startsWith cs ps)"

definition endsWith :: "string \<Rightarrow> string \<Rightarrow> bool" where
  "endsWith s p = startsWith (rev s) (rev p)"

fun includes_js :: "string \<Rightarrow> string \<Rightarrow> bool" where
  "includes_js [] p = startsWith [] p"
| "includes_js (c # cs) p = (startsWith (c # cs) p \<or> includes_js cs p)"

subsection \<open>State\<close>

record jsfile =
  file_type :: string
  file_name :: string
  file_size :: nat

datatype size_label =
    SizeInitial           \<comment> \<open>whatever the page showed at load time\<close>
  | FileSizeOf nat        \<comment> \<open>the text \<^verbatim>\<open>File size: ${formatFileSize(n)}\<close>\<close>

datatype progress_label =
    Caption string
  | ProcessingN nat       \<comment> \<open>the text \<^verbatim>\<open>Processing... ${n}%\<close>\<close>

record status_payload =
  st_status :: string
  st_progress :: nat      \<comment> \<open>\<^verbatim>\<open>status.progress || 0\<close>\<close>
  st_error :: string      \<comment> \<open>\<^verbatim>\<open>status.error\<close>, empty when absent\<close>

datatype poll_outcome =
    Rejected              \<comment> \<open>fetch rejected: no response\<close>
  | NotOk                 \<comment> \<open>a response whose status is not 2xx\<close>
  | BadJson               \<comment> \<open>a 2xx response whose body is not JSON\<close>
  | DecodedNull           \<comment> \<open>the body \<^verbatim>\<open>null\<close>: reading \<^verbatim>\<open>status.progress\<close> throws\<close>
  | Decoded status_payload

datatype upload_outcome =
    UploadRejected string   \<comment> \<open>fetch or JSON decoding threw, with this error.message\<close>
  | UploadNotOk string      \<comment> \<open>non-2xx, with this \<^verbatim>\<open>detail\<close> (empty when absent)\<close>
  | UploadOk string         \<comment> \<open>2xx, with this \<^verbatim>\<open>file_id\<close>\<close>

datatype generate_outcome =
    GenRejected string
  | GenNotOk string
  | GenOk

record app_state =
  currentFileId :: "string option"
  processCheckInterval :: "nat option"
  selectedFile :: "jsfile option"
  fileInput_value :: string
  fileName_text :: string
  fileSize_text :: size_label
  fileInfo_display :: string
  generateSection_display :: string
  generateSection_slideIn :: bool
  downloadSection_display :: string
  downloadSection_slideIn :: bool
  generateButton_disabled :: bool
  generateButton_text :: string
  generateButton_display :: string
  progressContainer_display :: string
  progressFill_width :: nat
  progressText_text :: progress_label
  downloadWord_href :: string
  downloadWord_display :: string
  errorText :: string
  errorMessage_display :: string
  errorMessage_fadeIn :: bool
  successMessage_display :: string
  successMessage_fadeIn :: bool
  timers :: "nat list"                     \<comment> \<open>interval timers registered and not cleared\<close>
  nextHandle :: nat                        \<comment> \<open>the handle the next setInterval returns\<close>
  statusRequests :: "string option list"   \<comment> \<open>status requests in flight: the id each asked for\<close>
  pendingUploads :: nat                    \<comment> \<open>upload requests in flight\<close>
  pendingGenerates :: nat                  \<comment> \<open>generation requests in flight\<close>
  successTimers :: nat                     \<comment> \<open>pending setTimeout(hideSuccess, 3000)\<close>
  errorsShown :: "string list"

subsection \<open>Messages\<close>

definition showError :: "string \<Rightarrow> app_state \<Rightarrow> app_state" where
  "showError message s =
     s\<lparr>errorText := message, errorMessage_display := ''block'', errorMessage_fadeIn := True,
       errorsShown := errorsShown s @ [message]\<rparr>"

definition hideError :: "app_state \<Rightarrow> app_state" where
  "hideError s = s\<lparr>errorMessage_display := ''none'', errorMessage_fadeIn := False\<rparr>"

definition hideSuccess :: "app_state \<Rightarrow> app_state" where
  "hideSuccess s = s\<lparr>successMessage_display := ''none'', successMessage_fadeIn := False\<rparr>"

definition showSuccess :: "app_state \<Rightarrow> app_state" where
  "showSuccess s =
     s\<lparr>successMessage_display := ''block'', successMessage_fadeIn := True,
       successTimers := Suc (successTimers s)\<rparr>"

definition resetGenerateButton :: "app_state \<Rightarrow> app_state" where
  \<comment> \<open>the caption starts with a rocket sign, left out here\<close>
  "resetGenerateButton s =
     s\<lparr>generateButton_disabled := False,
       generateButton_text := ''Start Generate Meeting Minutes'',
       generateButton_display := ''block'',
       progressContainer_display := ''none''\<rparr>"

subsection \<open>File selection\<close>

definition maxSize :: nat where
  "maxSize = 10 * 1024 * 1024"

definition processFile :: "jsfile \<Rightarrow> app_state \<Rightarrow> app_state" where
  "processFile file s =
     (if file_type file \<noteq> ''text/plain'' \<and> \<not> endsWith (toLowerCase (file_name file)) ''.txt''
      then showError ''Please select a .txt text file'' s
      else if file_size file > maxSize
      then showError ''File size cannot exceed 10MB'' s
      else s\<lparr>fileName_text := file_name file,
             fileSize_text := FileSizeOf (file_size file),
             fileInfo_display := ''block'',
             generateSection_display := ''block'',
             generateSection_slideIn := True,
             selectedFile := Some file\<rparr>)"

subsection \<open>Upload and generation\<close>

text \<open>
  \<^verbatim>\<open>handleGenerate\<close> suspends twice, at the upload and at the generation request. Each
  part between two suspensions is one function: the click, the settling of the upload,
  the settling of the generation request.
\<close>

definition showProgress :: "app_state \<Rightarrow> app_state" where
  "showProgress s =
     s\<lparr>progressContainer_display := ''block'', generateButton_display := ''none'',
       progressFill_width := 10, progressText_text := Caption ''Starting processing...''\<rparr>"

definition clearPollTimer :: "app_state \<Rightarrow> app_state" where
  \<comment> \<open>\<^verbatim>\<open>clearInterval(processCheckInterval)\<close>: the variable keeps the handle\<close>
  "clearPollTimer s =
     (case processCheckInterval s of
        None \<Rightarrow> s
      | Some h \<Rightarrow> s\<lparr>timers := removeAll h (timers s)\<rparr>)"

definition startProcessMonitoring :: "app_state \<Rightarrow> app_state" where
  "startProcessMonitoring s =
     (let s1 = clearPollTimer s; h = nextHandle s1
      in s1\<lparr>processCheckInterval := Some h, timers := timers s1 @ [h], nextHandle := Suc h\<rparr>)"

definition generationFailed :: "string \<Rightarrow> app_state \<Rightarrow> app_state" where
  \<comment> \<open>the catch block of handleGenerate\<close>
  "generationFailed message s =
     resetGenerateButton
       (showError (if message = [] then ''Processing failed, please try again'' else message) s)"

definition handleGenerate :: "app_state \<Rightarrow> app_state" where
  "handleGenerate s =
     (case selectedFile s of
        None \<Rightarrow> showError ''Please select a file first'' s
      | Some _ \<Rightarrow>
          s\<lparr>generateButton_disabled := True, generateButton_text := ''Uploading...'',
            pendingUploads := Suc (pendingUploads s)\<rparr>)"

definition uploadSettled :: "upload_outcome \<Rightarrow> app_state \<Rightarrow> app_state" where
  "uploadSettled outcome s =
     (if pendingUploads s = 0 then s
      else
        (let s0 = s\<lparr>pendingUploads := pendingUploads s - 1\<rparr>
         in case outcome of
              UploadRejected m \<Rightarrow> generationFailed m s0
            | UploadNotOk detail \<Rightarrow>
                generationFailed (if detail = [] then ''Upload failed'' else detail) s0
            | UploadOk file_id \<Rightarrow>
                s0\<lparr>currentFileId := Some file_id,
                   pendingGenerates := Suc (pendingGenerates s0)\<rparr>))"

definition generateSettled :: "generate_outcome \<Rightarrow> app_state \<Rightarrow> app_state" where
  "generateSettled outcome s =
     (if pendingGenerates s = 0 then s
      else
        (let s0 = s\<lparr>pendingGenerates := pendingGenerates s - 1\<rparr>
         in case outcome of
              GenRejected m \<Rightarrow> generationFailed m s0
            | GenNotOk detail \<Rightarrow>
                generationFailed (if detail = [] then ''Generation failed'' else detail) s0
            | GenOk \<Rightarrow> startProcessMonitoring (showProgress s0)))"

subsection \<open>Status polling\<close>

definition statusMessages :: "string \<Rightarrow> string option" where
  "statusMessages =
     map_of [(''processing'', ''Processing...''),
             (''uploading'', ''Uploading...''),
             (''extracting'', ''AI analyzing...''),
             (''generating'', ''Generating document...''),
             (''completed'', ''Processing complete!'')]"

definition updateProgress :: "status_payload \<Rightarrow> app_state \<Rightarrow> app_state" where
  "updateProgress status s =
     s\<lparr>progressFill_width := st_progress status,
       progressText_text :=
         (case statusMessages (st_status status) of
            Some m \<Rightarrow> Caption m
          | None \<Rightarrow> ProcessingN (st_progress status))\<rparr>"

definition idText :: "string option \<Rightarrow> string" where
  \<comment> \<open>a template literal prints the null id as the word null\<close>
  "idText i = (case i of None \<Rightarrow> ''null'' | Some x \<Rightarrow> x)"

definition showDownloadSection :: "app_state \<Rightarrow> app_state" where
  "showDownloadSection s =
     showSuccess
       (s\<lparr>downloadSection_display := ''block'', downloadSection_slideIn := True,
          downloadWord_href := ''/api/download/word/'' @ idText (currentFileId s),
          downloadWord_display := ''inline-block''\<rparr>)"

text \<open>
  The timer callback is asynchronous. When the timer fires it dispatches the status
  request for the id stored at that moment (\<open>pollTick\<close>); it does not consult the
  requests that are still in flight. The rest of the callback runs when that request has
  settled (\<open>pollSettled\<close>), on the state of that later moment; it reads the module
  variables again and carries nothing from the tick but the response.
\<close>

definition pollTick :: "nat \<Rightarrow> app_state \<Rightarrow> app_state" where
  "pollTick h s =
     (if h \<in> set (timers s)
      then s\<lparr>statusRequests := statusRequests s @ [currentFileId s]\<rparr>
      else s)"

definition pollFailed :: "app_state \<Rightarrow> app_state" where
  \<comment> \<open>the catch block of the callback\<close>
  "pollFailed s =
     resetGenerateButton (showError ''Unable to get processing status'' (clearPollTimer s))"

definition pollContinue :: "poll_outcome \<Rightarrow> app_state \<Rightarrow> app_state" where
  "pollContinue outcome s =
     (case outcome of
        Decoded status \<Rightarrow>
          (let s1 = updateProgress status s
           in if st_status status = ''completed'' then
                showDownloadSection (clearPollTimer s1)
              else if st_status status = ''failed'' then
                resetGenerateButton
                  (showError (if st_error status = [] then ''Processing failed''
                              else st_error status)
                     (clearPollTimer s1))
              else s1)
      | _ \<Rightarrow> pollFailed s)"

definition pollSettled :: "nat \<Rightarrow> poll_outcome \<Rightarrow> app_state \<Rightarrow> app_state" where
  "pollSettled i outcome s =
     (if i < length (statusRequests s)
      then pollContinue outcome
             (s\<lparr>statusRequests := take i (statusRequests s) @ drop (Suc i) (statusRequests s)\<rparr>)
      else s)"

subsection \<open>Reset\<close>

definition handleReset :: "app_state \<Rightarrow> app_state" where
  "handleReset s =
     (let s1 = s\<lparr>currentFileId := None, selectedFile := None\<rparr>;
          s2 = (case processCheckInterval s1 of
                  None \<Rightarrow> s1
                | Some h \<Rightarrow> s1\<lparr>timers := removeAll h (timers s1),
                               processCheckInterval := None\<rparr>);
          s3 = s2\<lparr>fileInput_value := [], fileInfo_display := ''none'',
                  generateSection_display := ''none'', downloadSection_display := ''none'',
                  progressContainer_display := ''none''\<rparr>
      in hideSuccess (hideError (resetGenerateButton s3)))"

subsection \<open>Events\<close>

datatype app_event =
    SelectFile jsfile
  | ClickGenerate
  | UploadSettles upload_outcome
  | GenerateSettles generate_outcome
  | TimerFires nat
  | StatusSettles nat poll_outcome
  | SuccessTimerFires
  | ClickReset

fun app_step :: "app_state \<Rightarrow> app_event \<Rightarrow> app_state" where
  "app_step s (SelectFile f) = processFile f s"
| "app_step s ClickGenerate = handleGenerate s"
| "app_step s (UploadSettles outcome) = uploadSettled outcome s"
| "app_step s (GenerateSettles outcome) = generateSettled outcome s"
| "app_step s (TimerFires h) = pollTick h s"
| "app_step s (StatusSettles i outcome) = pollSettled i outcome s"
| "app_step s SuccessTimerFires =
     (if successTimers s = 0 then s
      else hideSuccess (s\<lparr>successTimers := successTimers s - 1\<rparr>))"
| "app_step s ClickReset = handleReset s"

definition app_run :: "app_state \<Rightarrow> app_event list \<Rightarrow> app_state" where
  "app_run s es = foldl app_step s es"

text \<open>
  The page right after loading, with the sections the script reveals later hidden:
  the start of the concrete runs below.
\<close>

definition pageLoaded :: app_state where
  "pageLoaded =
     \<lparr>currentFileId = None, processCheckInterval = None, selectedFile = None,
      fileInput_value = [], fileName_text = [], fileSize_text = SizeInitial,
      fileInfo_display = ''none'', generateSection_display = ''none'',
      generateSection_slideIn = False, downloadSection_display = ''none'',
      downloadSection_slideIn = False, generateButton_disabled = False,
      generateButton_text = ''Start Generate Meeting Minutes'',
      generateButton_display = ''block'', progressContainer_display = ''none'',
      progressFill_width = 0, progressText_text = Caption [],
      downloadWord_href = [], downloadWord_display = ''none'',
      errorText = [], errorMessage_display = ''none'', errorMessage_fadeIn = False,
      successMessage_display = ''none'', successMessage_fadeIn = False,
      timers = [], nextHandle = 1, statusRequests = [], pendingUploads = 0,
      pendingGenerates = 0, successTimers = 0, errorsShown = []\<rparr>"

definition transcript :: jsfile where
  "transcript = \<lparr>file_type = ''text/plain'', file_name = ''meeting.txt'', file_size = 5120\<rparr>"

definition polling :: app_state where
  \<comment> \<open>a session whose upload and generation request succeeded: the poll timer runs\<close>
  "polling =
     app_run pageLoaded
       [SelectFile transcript, ClickGenerate, UploadSettles (UploadOk ''abc123''),
        GenerateSettles GenOk]"

text \<open>
  Every live interval timer is the one whose handle \<^verbatim>\<open>processCheckInterval\<close> holds: the
  script registers a timer in \<^verbatim>\<open>startProcessMonitoring\<close> only, after clearing the one it
  held.
\<close>

definition pollTimerOwned :: "app_state \<Rightarrow> bool" where
  "pollTimerOwned s =
     (case processCheckInterval s of
        None \<Rightarrow> timers s = []
      | Some h \<Rightarrow> set (timers s) \<subseteq> {h})"


section \<open>DownloadManager (static/js/download.js)\<close>

subsection \<open>The file name of a download\<close>

text \<open>
  \<^verbatim>\<open>extractFilename\<close> searches the header value with the pattern
  \<^verbatim>\<open>/filename[^;=\n]*=((['"]).*?\2|[^;\n]*)/\<close> and returns group 1 without its quote
  characters. A header value read through \<^verbatim>\<open>Headers.get\<close> is a byte string, one
  character per byte, which is what a HOL string is.

  The search tries every start position from the left (\<open>regex_search\<close>). At one
  position (\<open>match_here\<close>) the word \<^verbatim>\<open>filename\<close> must stand there; the greedy class
  \<^verbatim>\<open>[^;=\n]*\<close> then takes the longest run without semicolon, equals sign and newline, and
  the next character must be the equals sign (a shorter run would end before a character
  of the run, which is no equals sign, so backtracking finds nothing more). Group 1
  (\<open>value_group\<close>) tries the quoted alternative first: an opening quote, the shortest
  run of characters other than line terminators, and the same quote again, that is, up
  to the first later occurrence of that quote if no line terminator stands before it.
  Otherwise it is the longest run without semicolon and newline, which may be empty.
  Nothing follows group 1 in the pattern, so the first alternative that matches stands.
\<close>

abbreviation dq :: char where "dq \<equiv> CHR 0x22"
abbreviation sq :: char where "sq \<equiv> CHR 0x27"
abbreviation nl :: char where "nl \<equiv> CHR 0x0A"
abbreviation cr :: char where "cr \<equiv> CHR 0x0D"

definition name_char :: "char \<Rightarrow> bool" where
  "name_char c = (c \<noteq> CHR '';'' \<and> c \<noteq> CHR ''='' \<and> c \<noteq> nl)"

definition value_char :: "char \<Rightarrow> bool" where
  "value_char c = (c \<noteq> CHR '';'' \<and> c \<noteq> nl)"

definition dot_char :: "char \<Rightarrow> bool" where
  \<comment> \<open>what the dot matches: no line terminator\<close>
  "dot_char c = (c \<noteq> nl \<and> c \<noteq> cr)"

definition quoted_alt :: "char \<Rightarrow> string \<Rightarrow> string option" where
  "quoted_alt q rest =
     (let body = takeWhile (\<lambda>c. c \<noteq> q) rest
      in if length body < length rest \<and> list_all dot_char body
         then Some (q # body @ [q]) else None)"

definition value_group :: "string \<Rightarrow> string" where
  "value_group v =
     (case v of
        [] \<Rightarrow> []
      | q # rest \<Rightarrow>
          if q = sq \<or> q = dq then
            (case quoted_alt q rest of
               Some g \<Rightarrow> g
             | None \<Rightarrow> takeWhile value_char v)
          else takeWhile value_char v)"

definition match_here :: "string \<Rightarrow> string option" where
  "match_here s =
     (if startsWith s ''filename'' then
        (case dropWhile name_char (drop 8 s) of
           [] \<Rightarrow> None
         | c # v \<Rightarrow> if c = CHR ''='' then Some (value_group v) else None)
      else None)"

fun regex_search :: "string \<Rightarrow> string option" where
  "regex_search [] = match_here []"
| "regex_search (c # cs) =
     (case match_here (c # cs) of
        Some g \<Rightarrow> Some g
      | None \<Rightarrow> regex_search cs)"

definition strip_quotes :: "string \<Rightarrow> string" where
  \<comment> \<open>\<^verbatim>\<open>replace(/['"]/g, '')\<close>\<close>
  "strip_quotes g = filter (\<lambda>c. c \<noteq> sq \<and> c \<noteq> dq) g"

text \<open>
  The default name uses the date part of \<^verbatim>\<open>new Date().toISOString()\<close>; the ISO text of
  the clock is the argument \<open>stamp\<close>.
\<close>

definition default_filename :: "string \<Rightarrow> string \<Rightarrow> string" where
  "default_filename fileType stamp =
     ''meeting_minutes_'' @ takeWhile (\<lambda>c. c \<noteq> CHR ''T'') stamp @ ''.'' @
       (if fileType = ''word'' then ''docx'' else ''pdf'')"

definition extractFilename :: "string option \<Rightarrow> string \<Rightarrow> string \<Rightarrow> string" where
  "extractFilename contentDisposition fileType stamp =
     (case contentDisposition of
        None \<Rightarrow> default_filename fileType stamp
      | Some h \<Rightarrow>
          if h \<noteq> [] \<and> includes_js h ''filename='' then
            (case regex_search h of
               None \<Rightarrow> default_filename fileType stamp
             | Some g \<Rightarrow> if g \<noteq> [] then strip_quotes g else default_filename fileType stamp)
          else default_filename fileType stamp)"

subsection \<open>State\<close>

text \<open>
  The constructor looks up the section and the two buttons; each may be missing from the
  page, and the code guards its uses of them, except in \<^verbatim>\<open>showMessage\<close>, which appends
  a new message element to the section without a test. A function that can throw returns
  a completion: the state it reached, and whether it returned or threw there.
\<close>

datatype btn_label =
    LabelInitial                \<comment> \<open>the caption of the page\<close>
  | LabelDownloading string     \<comment> \<open>\<^verbatim>\<open>Downloading ${FT}...\<close>\<close>
  | LabelDownloaded string      \<comment> \<open>a check mark, then \<^verbatim>\<open>${FT} Downloaded\<close>\<close>
  | LabelFailed string          \<comment> \<open>a cross, then \<^verbatim>\<open>${FT} Failed\<close>\<close>
  | LabelDownloadWord
  | LabelDownloadPdf

record button =
  classList :: "string list"
  textContent :: btn_label
  disabled :: bool
  onclick :: "string option"    \<comment> \<open>the file type the click handler downloads\<close>

record message_element =
  className :: string
  messageText :: string
  messageDisplay :: string

datatype dm_timer =
    ResetButton string          \<comment> \<open>\<^verbatim>\<open>resetDownloadButton(fileType)\<close>\<close>
  | HideMessage

datatype download_outcome =
    DlRejected string                   \<comment> \<open>fetch rejected, with this error.message\<close>
  | DlNotOk string                      \<comment> \<open>non-2xx, with this statusText\<close>
  | DlBlobFailed "string option" string \<comment> \<open>2xx, but reading the body failed\<close>
  | DlOk "string option"                \<comment> \<open>2xx with this Content-Disposition; body read\<close>

record dm_state =
  downloadSection :: "string option"    \<comment> \<open>style.display of the section\<close>
  downloadWordBtn :: "button option"
  downloadPdfBtn :: "button option"
  currentProcessId :: "string option"
  downloadMessage :: "message_element option"
  dm_timers :: "(nat \<times> dm_timer) list"  \<comment> \<open>pending timeouts: delay in ms, action\<close>
  dm_requests :: "(string \<times> string) list"  \<comment> \<open>downloads in flight: process id, file type\<close>
  savedFiles :: "string list"           \<comment> \<open>names handed to the browser for saving\<close>

datatype 'a completion = Returns 'a | Throws 'a

fun reached :: "'a completion \<Rightarrow> 'a" where
  "reached (Returns s) = s"
| "reached (Throws s) = s"

definition classRemove :: "string list \<Rightarrow> string list \<Rightarrow> string list" where
  "classRemove names cl = filter (\<lambda>c. c \<notin> set names) cl"

definition classAdd :: "string \<Rightarrow> string list \<Rightarrow> string list" where
  "classAdd n cl = (if n \<in> set cl then cl else cl @ [n])"

definition buttonOf :: "string \<Rightarrow> dm_state \<Rightarrow> button option" where
  "buttonOf fileType s = (if fileType = ''word'' then downloadWordBtn s else downloadPdfBtn s)"

definition putButton :: "string \<Rightarrow> button \<Rightarrow> dm_state \<Rightarrow> dm_state" where
  "putButton fileType b s =
     (if fileType = ''word'' then s\<lparr>downloadWordBtn := Some b\<rparr>
      else s\<lparr>downloadPdfBtn := Some b\<rparr>)"

subsection \<open>Operations\<close>

definition showDownloadSection_dm :: "dm_state \<Rightarrow> dm_state" where
  "showDownloadSection_dm s =
     (case downloadSection s of
        None \<Rightarrow> s
      | Some _ \<Rightarrow> s\<lparr>downloadSection := Some ''block''\<rparr>)"

definition hideDownloadSection :: "dm_state \<Rightarrow> dm_state" where
  "hideDownloadSection s =
     (case downloadSection s of
        None \<Rightarrow> s
      | Some _ \<Rightarrow> s\<lparr>downloadSection := Some ''none''\<rparr>)"

definition setupDownloadHandlers :: "dm_state \<Rightarrow> dm_state" where
  "setupDownloadHandlers s =
     (let s1 = (case downloadWordBtn s of
                  None \<Rightarrow> s
                | Some b \<Rightarrow> s\<lparr>downloadWordBtn := Some (b\<lparr>onclick := Some ''word''\<rparr>)\<rparr>)
      in case downloadPdfBtn s1 of
           None \<Rightarrow> s1
         | Some b \<Rightarrow> s1\<lparr>downloadPdfBtn := Some (b\<lparr>onclick := Some ''pdf''\<rparr>)\<rparr>)"

definition initializeDownloads :: "string \<Rightarrow> dm_state \<Rightarrow> dm_state" where
  "initializeDownloads processId s =
     setupDownloadHandlers (showDownloadSection_dm (s\<lparr>currentProcessId := Some processId\<rparr>))"

definition setDownloadButtonState :: "string \<Rightarrow> string \<Rightarrow> dm_state \<Rightarrow> dm_state" where
  "setDownloadButtonState fileType state s =
     (case buttonOf fileType s of
        None \<Rightarrow> s
      | Some b \<Rightarrow>
          (let b0 = b\<lparr>classList := classRemove [''downloading'', ''completed'', ''error'']
                                      (classList b)\<rparr>
           in if state = ''downloading'' then
                putButton fileType
                  (b0\<lparr>classList := classAdd ''downloading'' (classList b0),
                      textContent := LabelDownloading (toUpperCase fileType),
                      disabled := True\<rparr>) s
              else if state = ''completed'' then
                (putButton fileType
                  (b0\<lparr>classList := classAdd ''completed'' (classList b0),
                      textContent := LabelDownloaded (toUpperCase fileType),
                      disabled := False\<rparr>) s)
                \<lparr>dm_timers := dm_timers s @ [(3000, ResetButton fileType)]\<rparr>
              else if state = ''error'' then
                (putButton fileType
                  (b0\<lparr>classList := classAdd ''error'' (classList b0),
                      textContent := LabelFailed (toUpperCase fileType),
                      disabled := False\<rparr>) s)
                \<lparr>dm_timers := dm_timers s @ [(5000, ResetButton fileType)]\<rparr>
              else
                putButton fileType
                  (b0\<lparr>textContent := (if fileType = ''word'' then LabelDownloadWord
                                       else LabelDownloadPdf),
                      disabled := False\<rparr>) s))"

definition resetDownloadButton :: "string \<Rightarrow> dm_state \<Rightarrow> dm_state" where
  "resetDownloadButton fileType s = setDownloadButtonState fileType ''normal'' s"

definition showMessage :: "string \<Rightarrow> string \<Rightarrow> dm_state \<Rightarrow> dm_state completion" where
  "showMessage message type s =
     (if downloadMessage s = None \<and> downloadSection s = None then Throws s
      else Returns
        (s\<lparr>downloadMessage :=
              Some \<lparr>className = ''download-message '' @ type, messageText = message,
                    messageDisplay = ''block''\<rparr>,
            dm_timers := dm_timers s @ [(5000, HideMessage)]\<rparr>))"

definition downloadFailed :: "string \<Rightarrow> string \<Rightarrow> dm_state \<Rightarrow> dm_state completion" where
  \<comment> \<open>the catch block of downloadFile\<close>
  "downloadFailed fileType message s =
     showMessage (''Failed to download '' @ toUpperCase fileType @ '' file: '' @ message) ''error''
       (setDownloadButtonState fileType ''error'' s)"

text \<open>
  \<^verbatim>\<open>downloadFile\<close> up to its first suspension: the test of the process id (null and the
  empty string are falsy), the button state, and the dispatch of the request. It reads
  nothing of the button and nothing of the requests in flight.
\<close>

definition downloadFile :: "string \<Rightarrow> dm_state \<Rightarrow> dm_state completion" where
  "downloadFile fileType s =
     (case currentProcessId s of
        None \<Rightarrow> showMessage ''No process ID available for download'' ''error'' s
      | Some pid \<Rightarrow>
          if pid = [] then showMessage ''No process ID available for download'' ''error'' s
          else Returns ((setDownloadButtonState fileType ''downloading'' s)
                          \<lparr>dm_requests := dm_requests s @ [(pid, fileType)]\<rparr>))"

text \<open>
  The rest of \<^verbatim>\<open>downloadFile\<close>, run when request \<open>i\<close> and the reading of its body have
  settled. \<^verbatim>\<open>showSuccess\<close> stands inside the try block: if it throws, the catch block
  runs. The message of that error is the browser's; it is never shown, as the catch
  block then throws at the same place.
\<close>

definition downloadSettled ::
    "nat \<Rightarrow> download_outcome \<Rightarrow> string \<Rightarrow> dm_state \<Rightarrow> dm_state completion" where
  "downloadSettled i outcome stamp s =
     (if i < length (dm_requests s) then
        (let fileType = snd (dm_requests s ! i);
             s0 = s\<lparr>dm_requests := take i (dm_requests s) @ drop (Suc i) (dm_requests s)\<rparr>
         in case outcome of
              DlRejected m \<Rightarrow> downloadFailed fileType m s0
            | DlNotOk statusText \<Rightarrow>
                downloadFailed fileType (''Download failed: '' @ statusText) s0
            | DlBlobFailed h m \<Rightarrow> downloadFailed fileType m s0
            | DlOk h \<Rightarrow>
                (let s1 = s0\<lparr>savedFiles := savedFiles s0 @ [extractFilename h fileType stamp]\<rparr>;
                     s2 = setDownloadButtonState fileType ''completed'' s1
                 in case showMessage (toUpperCase fileType @ '' file downloaded successfully!'')
                           ''success'' s2 of
                      Returns s3 \<Rightarrow> Returns s3
                    | Throws s3 \<Rightarrow> downloadFailed fileType [] s3))
      else Returns s)"

definition dm_timerFires :: "nat \<Rightarrow> dm_state \<Rightarrow> dm_state" where
  "dm_timerFires i s =
     (if i < length (dm_timers s) then
        (let s0 = s\<lparr>dm_timers := take i (dm_timers s) @ drop (Suc i) (dm_timers s)\<rparr>
         in case snd (dm_timers s ! i) of
              ResetButton fileType \<Rightarrow> resetDownloadButton fileType s0
            | HideMessage \<Rightarrow>
                (case downloadMessage s0 of
                   None \<Rightarrow> s0
                 | Some m \<Rightarrow> s0\<lparr>downloadMessage := Some (m\<lparr>messageDisplay := ''none''\<rparr>)\<rparr>))
      else s)"

text \<open>A click on a button runs its handler unless the button is disabled.\<close>

definition clickButton :: "string \<Rightarrow> dm_state \<Rightarrow> dm_state completion" where
  "clickButton fileType s =
     (case buttonOf fileType s of
        None \<Rightarrow> Returns s
      | Some b \<Rightarrow>
          if disabled b then Returns s
          else (case onclick b of
                  None \<Rightarrow> Returns s
                | Some t \<Rightarrow> downloadFile t s))"

definition reset_dm :: "dm_state \<Rightarrow> dm_state" where
  "reset_dm s =
     (let s1 = resetDownloadButton ''pdf''
                 (resetDownloadButton ''word''
                    (hideDownloadSection (s\<lparr>currentProcessId := None\<rparr>)))
      in case downloadMessage s1 of
           None \<Rightarrow> s1
         | Some m \<Rightarrow> s1\<lparr>downloadMessage := Some (m\<lparr>messageDisplay := ''none''\<rparr>)\<rparr>)"

text \<open>
  A page with the section and both buttons, after \<^verbatim>\<open>initializeDownloads('abc123')\<close>
  and a first \<^verbatim>\<open>downloadFile('word')\<close> whose request is still in flight.
\<close>

definition dm_page :: dm_state where
  "dm_page =
     \<lparr>downloadSection = Some ''none'',
      downloadWordBtn = Some \<lparr>classList = [], textContent = LabelInitial, disabled = False,
                              onclick = None\<rparr>,
      downloadPdfBtn = Some \<lparr>classList = [], textContent = LabelInitial, disabled = False,
                             onclick = None\<rparr>,
      currentProcessId = None, downloadMessage = None, dm_timers = [], dm_requests = [],
      savedFiles = []\<rparr>"

definition dm_downloading :: dm_state where
  "dm_downloading = reached (downloadFile ''word'' (initializeDownloads ''abc123'' dm_page))"

subsection \<open>The availability check\<close>

text \<open>
  \<^verbatim>\<open>checkDownloadStatus\<close> reads four properties of the decoded body. The body is any
  JSON value; a number stands for the double it was decoded to. Reading a property of
  \<^verbatim>\<open>null\<close> throws a TypeError; reading one of these names from a boolean, a number, a
  string or an array gives \<^verbatim>\<open>undefined\<close>. An object is the list of its entries, one per
  key.
\<close>

datatype jsval =
    JUndefined
  | JNull
  | JBool bool
  | JNum real
  | JStr string
  | JArr "jsval list"
  | JObj "(string \<times> jsval) list"

datatype js_error =
    TypeError             \<comment> \<open>a property of null or undefined was read\<close>
  | NetworkError          \<comment> \<open>fetch rejected\<close>
  | SyntaxError           \<comment> \<open>the body is not JSON\<close>

fun truthy :: "jsval \<Rightarrow> bool" where
  "truthy JUndefined = False"
| "truthy JNull = False"
| "truthy (JBool b) = b"
| "truthy (JNum x) = (x \<noteq> 0)"
| "truthy (JStr s) = (s \<noteq> [])"
| "truthy (JArr _) = True"
| "truthy (JObj _) = True"

fun getProp :: "jsval \<Rightarrow> string \<Rightarrow> js_error + jsval" where
  "getProp JUndefined k = Inl TypeError"
| "getProp JNull k = Inl TypeError"
| "getProp (JObj kvs) k = (case map_of kvs k of None \<Rightarrow> Inr JUndefined | Some v \<Rightarrow> Inr v)"
| "getProp v k = Inr JUndefined"

definition andThen :: "js_error + 'a \<Rightarrow> ('a \<Rightarrow> js_error + 'b) \<Rightarrow> js_error + 'b" where
  "andThen m f = (case m of Inl e \<Rightarrow> Inl e | Inr x \<Rightarrow> f x)"

definition andProp :: "jsval \<Rightarrow> string \<Rightarrow> js_error + jsval" where
  \<comment> \<open>\<^verbatim>\<open>v && v.k\<close>\<close>
  "andProp v k = (if truthy v then getProp v k else Inr v)"

datatype fetch_outcome =
    FetchRejected         \<comment> \<open>no response\<close>
  | JsonRejected          \<comment> \<open>a response whose body is not JSON\<close>
  | Body jsval            \<comment> \<open>a response, of any status, with this decoded body\<close>

record download_status =
  ds_success :: jsval
  wordReady :: jsval
  pdfReady :: jsval
  ds_message :: jsval

definition statusFailed :: download_status where
  "statusFailed =
     \<lparr>ds_success = JBool False, wordReady = JBool False, pdfReady = JBool False,
      ds_message = JStr ''Failed to check download status''\<rparr>"

definition readStatus :: "jsval \<Rightarrow> js_error + download_status" where
  \<comment> \<open>the object literal of the try block, its properties evaluated in order\<close>
  "readStatus d =
     andThen (getProp d ''success'') (\<lambda>success.
     andThen (getProp d ''files'') (\<lambda>files1.
     andThen (andProp files1 ''word'') (\<lambda>word.
     andThen (getProp d ''files'') (\<lambda>files2.
     andThen (andProp files2 ''pdf'') (\<lambda>pdf.
     andThen (getProp d ''message'') (\<lambda>message.
       Inr \<lparr>ds_success = success, wordReady = word, pdfReady = pdf,
            ds_message = message\<rparr>))))))"

definition statusUrl :: "string \<Rightarrow> string" where
  "statusUrl processId = ''/api/download/'' @ processId @ ''/status''"

definition checkDownloadStatus ::
    "(string \<Rightarrow> fetch_outcome) \<Rightarrow> string \<Rightarrow> js_error + download_status" where
  "checkDownloadStatus backend processId =
     (let tried = (case backend (statusUrl processId) of
                     FetchRejected \<Rightarrow> Inl NetworkError
                   | JsonRejected \<Rightarrow> Inl SyntaxError
                   | Body d \<Rightarrow> readStatus d)
      in case tried of
           Inl e \<Rightarrow> Inr statusFailed
         | Inr r \<Rightarrow> Inr r)"


section \<open>Notifications (static/js/enhanced-ux.js, class EnhancedUX)\<close>

text \<open>
  A notification is an element appended to the container, with the attribute
  \<^verbatim>\<open>data-id\<close> set to \<^verbatim>\<open>Date.now().toString()\<close>: the identifier is the clock reading in
  milliseconds, the argument \<open>now\<close>. \<^verbatim>\<open>hideNotification(id)\<close> looks the element up with
  \<^verbatim>\<open>document.querySelector\<close>, which returns the first element of the document that
  carries that attribute value. Elements are told apart by \<open>n_node\<close>, the identity of the
  DOM node. The state also holds the array \<^verbatim>\<open>this.notifications\<close> and the pending
  timeouts with their delays.
\<close>

record notification =
  n_node :: nat
  n_id :: nat
  n_type :: string
  n_title :: string
  n_message :: string
  n_actions :: "(string \<times> string \<times> string) list"   \<comment> \<open>text, style, onClick\<close>
  n_show :: bool                                       \<comment> \<open>carries the class \<^verbatim>\<open>show\<close>\<close>

datatype ux_timer =
    AddShow nat           \<comment> \<open>add the class \<^verbatim>\<open>show\<close> to this node\<close>
  | AutoHide nat          \<comment> \<open>\<^verbatim>\<open>hideNotification(id)\<close>\<close>
  | RemoveNode nat nat    \<comment> \<open>remove this node; drop this id from the array\<close>

record ux_state =
  container :: "notification list"           \<comment> \<open>the children of the container, in order\<close>
  notifications :: "(nat \<times> nat \<times> string) list"  \<comment> \<open>id, node, type\<close>
  ux_timers :: "(nat \<times> ux_timer) list"      \<comment> \<open>pending timeouts: delay in ms, action\<close>
  ux_nextNode :: nat

definition showNotification ::
    "string \<Rightarrow> string \<Rightarrow> string \<Rightarrow> (string \<times> string \<times> string) list \<Rightarrow> nat \<Rightarrow> ux_state
       \<Rightarrow> ux_state" where
  "showNotification type title message actions now s =
     (let node = ux_nextNode s;
          el = \<lparr>n_node = node, n_id = now, n_type = type, n_title = title,
                n_message = message, n_actions = actions, n_show = False\<rparr>
      in s\<lparr>container := container s @ [el],
           ux_timers := ux_timers s @ [(10, AddShow node)]
                          @ (if type \<noteq> ''error'' then [(5000, AutoHide now)] else []),
           notifications := notifications s @ [(now, node, type)],
           ux_nextNode := Suc node\<rparr>)"

definition hideNotification :: "nat \<Rightarrow> ux_state \<Rightarrow> ux_state" where
  "hideNotification nid s =
     (case find (\<lambda>e. n_id e = nid) (container s) of
        None \<Rightarrow> s
      | Some e \<Rightarrow>
          s\<lparr>container := map (\<lambda>x. if n_node x = n_node e then x\<lparr>n_show := False\<rparr> else x)
                            (container s),
            ux_timers := ux_timers s @ [(300, RemoveNode (n_node e) nid)]\<rparr>)"

definition ux_timerFires :: "nat \<Rightarrow> ux_state \<Rightarrow> ux_state" where
  "ux_timerFires i s =
     (if i < length (ux_timers s) then
        (let s0 = s\<lparr>ux_timers := take i (ux_timers s) @ drop (Suc i) (ux_timers s)\<rparr>
         in case snd (ux_timers s ! i) of
              AddShow node \<Rightarrow>
                s0\<lparr>container := map (\<lambda>x. if n_node x = node then x\<lparr>n_show := True\<rparr> else x)
                                   (container s0)\<rparr>
            | AutoHide nid \<Rightarrow> hideNotification nid s0
            | RemoveNode node nid \<Rightarrow>
                s0\<lparr>container := filter (\<lambda>x. n_node x \<noteq> node) (container s0),
                   notifications := filter (\<lambda>n. fst n \<noteq> nid) (notifications s0)\<rparr>)
      else s)"

definition escapeKey :: "ux_state \<Rightarrow> ux_state" where
  \<comment> \<open>the keydown handler, for the Escape key\<close>
  "escapeKey s = foldl (\<lambda>t n. hideNotification (fst n) t) s (notifications s)"

definition ux_new :: ux_state where
  "ux_new = \<lparr>container = [], notifications = [], ux_timers = [], ux_nextNode = 0\<rparr>"

text \<open>
  What \<^verbatim>\<open>validateFileWithFeedback\<close> shows for a file of the wrong type that is neither
  too large nor empty: three notifications within one run of the loop, here at the clock
  reading 1000.
\<close>

definition feedbackShown :: ux_state where
  "feedbackShown =
     showNotification ''success'' ''File content validation'' ''File contains data'' [] 1000
       (showNotification ''success'' ''File size validation'' ''File size OK'' [] 1000
          (showNotification ''error'' ''File type validation'' ''Please select a .txt file'' []
             1000 ux_new))"

section \<open>ProgressManager (enhanced-ux.js, class ProgressManager)\<close>

text \<open>
  The progress bar component. Its three DOM elements are looked up once in the
  constructor and every use is guarded (\<^verbatim>\<open>if (this.progressFill)\<close>), so each element is
  an option: \<open>None\<close> when the page has no such element. Percentages are JavaScript
  numbers (\<open>jsnum\<close>): NaN, the two infinities, or a finite number, which stands for the
  real it denotes (\<^verbatim>\<open>Math.min\<close> and the comparisons do no arithmetic). A comparison with
  NaN is false and \<^verbatim>\<open>Math.min\<close> of NaN is NaN. A width text \<^verbatim>\<open>p + '%'\<close> is stored as the
  number \<open>p\<close>.
\<close>

datatype jsnum = JsNaN | JsNegInf | JsFinite real | JsPosInf

fun js_le :: "jsnum \<Rightarrow> jsnum \<Rightarrow> bool" where
  "js_le JsNaN y = False"
| "js_le x JsNaN = False"
| "js_le JsNegInf y = True"
| "js_le x JsPosInf = True"
| "js_le (JsFinite a) (JsFinite b) = (a \<le> b)"
| "js_le x y = False"

fun js_lt :: "jsnum \<Rightarrow> jsnum \<Rightarrow> bool" where
  "js_lt JsNaN y = False"
| "js_lt x JsNaN = False"
| "js_lt JsNegInf JsNegInf = False"
| "js_lt JsNegInf y = True"
| "js_lt JsPosInf y = False"
| "js_lt (JsFinite a) (JsFinite b) = (a < b)"
| "js_lt (JsFinite a) JsPosInf = True"
| "js_lt (JsFinite a) JsNegInf = False"

definition math_min :: "jsnum \<Rightarrow> jsnum \<Rightarrow> jsnum" where
  \<comment> \<open>\<^verbatim>\<open>Math.min(x, y)\<close>\<close>
  "math_min x y = (if x = JsNaN \<or> y = JsNaN then JsNaN else if js_le x y then x else y)"

datatype ptext =
    Msg string            \<comment> \<open>a message given by the caller or the backend\<close>
  | ProcessingPct jsnum   \<comment> \<open>the text \<^verbatim>\<open>Processing... ${p}%\<close>\<close>
  | ErrMsg string         \<comment> \<open>the text of errorProgress: a cross mark, then the message\<close>

record fill =
  width :: jsnum
  backgroundColor :: string

text \<open>
  The decoded status answer, as the code reads it: the truth value of \<^verbatim>\<open>data.success\<close>,
  the number \<^verbatim>\<open>data.progress\<close> converts to (NaN when the property is missing or is not
  numeric; the code passes it on unchecked), and the message and status texts, empty
  when absent.
\<close>

record pm_payload =
  p_success :: bool
  p_progress :: jsnum
  p_message :: string
  p_status :: string

datatype pm_outcome =
    PFailed               \<comment> \<open>fetch rejected, or the body is not JSON, or it is \<^verbatim>\<open>null\<close>\<close>
  | PData pm_payload

record pm_state =
  progressContainer :: "string option"     \<comment> \<open>style.display of the container\<close>
  progressFill :: "fill option"
  progressText :: "ptext option"
  currentProgress :: jsnum
  updateInterval :: "nat option"
  pm_intervals :: "(nat \<times> string) list"   \<comment> \<open>live interval timers: handle, processId\<close>
  pm_nextHandle :: nat
  pm_requests :: "string list"             \<comment> \<open>status requests dispatched and not resolved\<close>
  pm_hideTimers :: nat                     \<comment> \<open>pending setTimeout(hideProgress, 2000)\<close>

definition showProgress_pm :: "pm_state \<Rightarrow> pm_state" where
  "showProgress_pm s =
     (case progressContainer s of
        None \<Rightarrow> s
      | Some _ \<Rightarrow> s\<lparr>progressContainer := Some ''block''\<rparr>)"

definition updateProgress_pm :: "jsnum \<Rightarrow> string \<Rightarrow> pm_state \<Rightarrow> pm_state" where
  "updateProgress_pm percentage message s =
     (let cp = math_min percentage (JsFinite 100);
          s1 = s\<lparr>currentProgress := cp\<rparr>;
          s2 = (case progressFill s1 of
                  None \<Rightarrow> s1
                | Some f \<Rightarrow> s1\<lparr>progressFill := Some (f\<lparr>width := cp\<rparr>)\<rparr>)
      in case progressText s2 of
           None \<Rightarrow> s2
         | Some _ \<Rightarrow>
             s2\<lparr>progressText := Some (if message = [] then ProcessingPct cp else Msg message)\<rparr>)"

text \<open>errorProgress passes a text that starts with the cross mark, never empty.\<close>

definition updateProgress_err :: "jsnum \<Rightarrow> string \<Rightarrow> pm_state \<Rightarrow> pm_state" where
  "updateProgress_err percentage message s =
     (let cp = math_min percentage (JsFinite 100);
          s1 = s\<lparr>currentProgress := cp\<rparr>;
          s2 = (case progressFill s1 of
                  None \<Rightarrow> s1
                | Some f \<Rightarrow> s1\<lparr>progressFill := Some (f\<lparr>width := cp\<rparr>)\<rparr>)
      in case progressText s2 of
           None \<Rightarrow> s2
         | Some _ \<Rightarrow> s2\<lparr>progressText := Some (ErrMsg message)\<rparr>)"

definition clearInterval_pm :: "pm_state \<Rightarrow> pm_state" where
  "clearInterval_pm s =
     (case updateInterval s of
        None \<Rightarrow> s
      | Some h \<Rightarrow> s\<lparr>pm_intervals := filter (\<lambda>t. fst t \<noteq> h) (pm_intervals s),
                    updateInterval := None\<rparr>)"

definition hideProgress_pm :: "pm_state \<Rightarrow> pm_state" where
  "hideProgress_pm s =
     clearInterval_pm
       (case progressContainer s of
          None \<Rightarrow> s
        | Some _ \<Rightarrow> s\<lparr>progressContainer := Some ''none''\<rparr>)"

definition startProgress :: "string \<Rightarrow> pm_state \<Rightarrow> pm_state" where
  "startProgress processId s =
     (let s1 = updateProgress_pm (JsFinite 5) ''Starting AI processing...''
                 (showProgress_pm (s\<lparr>currentProgress := JsFinite 0\<rparr>));
          h = pm_nextHandle s1
      in s1\<lparr>updateInterval := Some h,
             pm_intervals := pm_intervals s1 @ [(h, processId)],
             pm_nextHandle := Suc h\<rparr>)"

definition completeProgress :: "string \<Rightarrow> pm_state \<Rightarrow> pm_state" where
  "completeProgress message s =
     (let s1 = clearInterval_pm (updateProgress_pm (JsFinite 100) message s)
      in s1\<lparr>pm_hideTimers := Suc (pm_hideTimers s1)\<rparr>)"

definition errorProgress :: "string \<Rightarrow> pm_state \<Rightarrow> pm_state" where
  "errorProgress message s =
     (let s1 = clearInterval_pm (updateProgress_err (currentProgress s) message s)
      in case progressFill s1 of
           None \<Rightarrow> s1
         | Some f \<Rightarrow> s1\<lparr>progressFill := Some (f\<lparr>backgroundColor := ''#ff4444''\<rparr>)\<rparr>)"

text \<open>
  checkProgressStatus is asynchronous: the timer tick dispatches the request
  (\<open>checkProgress_dispatch\<close>) and the rest of the body runs when the request and its JSON
  decoding have settled (\<open>checkProgress_resolved\<close>). The tick does not look at the
  requests that are still outstanding.
\<close>

definition checkProgress_dispatch :: "string \<Rightarrow> pm_state \<Rightarrow> pm_state" where
  "checkProgress_dispatch processId s = s\<lparr>pm_requests := pm_requests s @ [processId]\<rparr>"

definition pm_tick :: "nat \<Rightarrow> pm_state \<Rightarrow> pm_state" where
  "pm_tick h s =
     (case map_of (pm_intervals s) h of
        None \<Rightarrow> s
      | Some processId \<Rightarrow> checkProgress_dispatch processId s)"

definition checkProgress_resolved :: "pm_outcome \<Rightarrow> pm_state \<Rightarrow> pm_state" where
  "checkProgress_resolved outcome s =
     (case pm_requests s of
        [] \<Rightarrow> s
      | _ # rest \<Rightarrow>
          (let s0 = s\<lparr>pm_requests := rest\<rparr>
           in case outcome of
                PFailed \<Rightarrow> errorProgress ''Failed to check progress status'' s0
              | PData d \<Rightarrow>
                  if p_success d then
                    (let s1 = updateProgress_pm (p_progress d) (p_message d) s0
                     in if js_le (JsFinite 100) (p_progress d) \<or> p_status d = ''completed'' then
                          completeProgress
                            (if p_message d = [] then ''Processing completed!'' else p_message d) s1
                        else if p_status d = ''error'' then
                          errorProgress
                            (if p_message d = [] then ''Processing failed'' else p_message d) s1
                        else s1)
                  else s0))"

definition pm_hideTimer_fires :: "pm_state \<Rightarrow> pm_state" where
  "pm_hideTimer_fires s =
     (if pm_hideTimers s = 0 then s
      else hideProgress_pm (s\<lparr>pm_hideTimers := pm_hideTimers s - 1\<rparr>))"

definition reset_pm :: "pm_state \<Rightarrow> pm_state" where
  "reset_pm s =
     (let s1 = hideProgress_pm ((clearInterval_pm s)\<lparr>currentProgress := JsFinite 0\<rparr>);
          s2 = (case progressFill s1 of
                  None \<Rightarrow> s1
                | Some f \<Rightarrow> s1\<lparr>progressFill := Some (f\<lparr>width := JsFinite 0, backgroundColor := ''#007AFF''\<rparr>)\<rparr>)
      in case progressText s2 of
           None \<Rightarrow> s2
         | Some _ \<Rightarrow> s2\<lparr>progressText := Some (Msg [])\<rparr>)"

text \<open>The state the constructor builds, for a page with the given elements.\<close>

definition pm_new :: "string option \<Rightarrow> fill option \<Rightarrow> ptext option \<Rightarrow> pm_state" where
  "pm_new c f t =
     \<lparr>progressContainer = c, progressFill = f, progressText = t, currentProgress = JsFinite 0,
      updateInterval = None, pm_intervals = [], pm_nextHandle = 1, pm_requests = [],
      pm_hideTimers = 0\<rparr>"

datatype pm_op =
    StartProgress string
  | ShowProgress
  | HideProgress
  | UpdateProgress jsnum string
  | IntervalTick nat
  | CheckResolved pm_outcome
  | CompleteProgress string
  | ErrorProgress string
  | ClearInterval
  | HideTimerFires
  | ResetProgress

fun pm_step :: "pm_state \<Rightarrow> pm_op \<Rightarrow> pm_state" where
  "pm_step s (StartProgress pid) = startProgress pid s"
| "pm_step s ShowProgress = showProgress_pm s"
| "pm_step s HideProgress = hideProgress_pm s"
| "pm_step s (UpdateProgress p m) = updateProgress_pm p m s"
| "pm_step s (IntervalTick h) = pm_tick h s"
| "pm_step s (CheckResolved outcome) = checkProgress_resolved outcome s"
| "pm_step s (CompleteProgress m) = completeProgress m s"
| "pm_step s (ErrorProgress m) = errorProgress m s"
| "pm_step s ClearInterval = clearInterval_pm s"
| "pm_step s HideTimerFires = pm_hideTimer_fires s"
| "pm_step s ResetProgress = reset_pm s"

definition pm_run :: "pm_state \<Rightarrow> pm_op list \<Rightarrow> pm_state" where
  "pm_run s ops = foldl pm_step s ops"

text \<open>
  An operation that hands the manager no NaN: a call of updateProgress with a number
  other than NaN, a status answer whose progress is one, or any other operation.
\<close>

fun numeric_op :: "pm_op \<Rightarrow> bool" where
  "numeric_op (UpdateProgress x m) = (x \<noteq> JsNaN)"
| "numeric_op (CheckResolved (PData d)) = (p_progress d \<noteq> JsNaN)"
| "numeric_op _ = True"


section \<open>Properties of the page script\<close>

lemmas app_defs =
  showError_def hideError_def hideSuccess_def showSuccess_def resetGenerateButton_def
  showProgress_def clearPollTimer_def startProcessMonitoring_def generationFailed_def
  handleGenerate_def uploadSettled_def generateSettled_def updateProgress_def
  showDownloadSection_def pollTick_def pollFailed_def pollContinue_def pollSettled_def
  handleReset_def processFile_def

lemma removeAll_only: "set xs \<subseteq> {h} \<Longrightarrow> removeAll h xs = []"
  by (induction xs) auto

lemma handleReset_idem: "handleReset (handleReset s) = handleReset s"
  by (cases "processCheckInterval s") (simp_all add: app_defs Let_def)

lemma owned_processFile: "pollTimerOwned s \<Longrightarrow> pollTimerOwned (processFile f s)"
  by (auto simp: pollTimerOwned_def app_defs split: option.splits)

lemma owned_handleGenerate: "pollTimerOwned s \<Longrightarrow> pollTimerOwned (handleGenerate s)"
  by (simp add: pollTimerOwned_def app_defs split: option.splits)

lemma owned_uploadSettled: "pollTimerOwned s \<Longrightarrow> pollTimerOwned (uploadSettled outcome s)"
  by (cases outcome) (auto simp: pollTimerOwned_def app_defs Let_def split: option.splits)

lemma owned_start: "pollTimerOwned s \<Longrightarrow> pollTimerOwned (startProcessMonitoring s)"
  by (auto simp: pollTimerOwned_def app_defs Let_def split: option.splits)

lemma owned_generateSettled: "pollTimerOwned s \<Longrightarrow> pollTimerOwned (generateSettled outcome s)"
  by (cases outcome) (auto simp: pollTimerOwned_def app_defs Let_def split: option.splits)

lemma owned_pollTick: "pollTimerOwned s \<Longrightarrow> pollTimerOwned (pollTick h s)"
  by (auto simp: pollTimerOwned_def app_defs split: option.splits)

lemma owned_pollContinue: "pollTimerOwned s \<Longrightarrow> pollTimerOwned (pollContinue outcome s)"
  by (cases outcome) (auto simp: pollTimerOwned_def app_defs Let_def split: option.splits)

lemma owned_pollSettled: "pollTimerOwned s \<Longrightarrow> pollTimerOwned (pollSettled i outcome s)"
proof -
  assume a: "pollTimerOwned s"
  have "pollTimerOwned (s\<lparr>statusRequests := r\<rparr>)" for r
    using a by (auto simp: pollTimerOwned_def split: option.splits)
  then show ?thesis
    using a by (simp add: pollSettled_def owned_pollContinue)
qed

lemma owned_handleReset: "pollTimerOwned s \<Longrightarrow> pollTimerOwned (handleReset s)"
  by (auto simp: pollTimerOwned_def app_defs Let_def removeAll_only split: option.splits)

lemma owned_step: "pollTimerOwned s \<Longrightarrow> pollTimerOwned (app_step s e)"
  by (cases e)
     (simp_all add: owned_processFile owned_handleGenerate owned_uploadSettled
        owned_generateSettled owned_pollTick owned_pollSettled owned_handleReset,
      auto simp: pollTimerOwned_def hideSuccess_def split: option.splits)

lemma owned_run: "pollTimerOwned s \<Longrightarrow> pollTimerOwned (app_run s es)"
  unfolding app_run_def
  by (induction es arbitrary: s) (simp_all add: owned_step)

lemma timers_handleReset: "pollTimerOwned s \<Longrightarrow> timers (handleReset s) = []"
  by (auto simp: pollTimerOwned_def app_defs Let_def removeAll_only split: option.splits)


lemma polling_eq:
  "polling =
     \<lparr>currentFileId = Some ''abc123'', processCheckInterval = Some 1,
      selectedFile = Some transcript,
      fileInput_value = [], fileName_text = ''meeting.txt'',
      fileSize_text = FileSizeOf 5120, fileInfo_display = ''block'',
      generateSection_display = ''block'', generateSection_slideIn = True,
      downloadSection_display = ''none'', downloadSection_slideIn = False,
      generateButton_disabled = True, generateButton_text = ''Uploading...'',
      generateButton_display = ''none'',
      progressContainer_display = ''block'', progressFill_width = 10,
      progressText_text = Caption ''Starting processing...'',
      downloadWord_href = [], downloadWord_display = ''none'', errorText = [],
      errorMessage_display = ''none'', errorMessage_fadeIn = False,
      successMessage_display = ''none'', successMessage_fadeIn = False,
      timers = [1], nextHandle = 2, statusRequests = [], pendingUploads = 0,
      pendingGenerates = 0, successTimers = 0, errorsShown = []\<rparr>"
  by (simp add: polling_def app_run_def pageLoaded_def transcript_def app_defs Let_def
      endsWith_def toLowerCase_def maxSize_def)

lemma owned_polling: "pollTimerOwned polling"
  by (simp add: polling_eq pollTimerOwned_def)

subsection \<open>File selection\<close>

lemma processFile_rejects:
  assumes "(file_type f \<noteq> ''text/plain'' \<and> \<not> endsWith (toLowerCase (file_name f)) ''.txt'')
           \<or> file_size f > maxSize"
  shows "selectedFile (processFile f s) = selectedFile s
         \<and> generateSection_display (processFile f s) = generateSection_display s
         \<and> fileInfo_display (processFile f s) = fileInfo_display s
         \<and> (\<exists>m. errorsShown (processFile f s) = errorsShown s @ [m])"
  using assms by (auto simp: processFile_def showError_def)

text \<open>
  Claim C1 (the part the code misses). A plain-text file of size zero passes both tests
  of processFile, which has no test for an empty file: the file is stored, the generate
  section is revealed and no error is reported.
\<close>

theorem processFile_accepts_empty_file:
  "selectedFile
     (processFile \<lparr>file_type = ''text/plain'', file_name = ''empty.txt'', file_size = 0\<rparr> s)
     = Some \<lparr>file_type = ''text/plain'', file_name = ''empty.txt'', file_size = 0\<rparr>
   \<and> generateSection_display
       (processFile \<lparr>file_type = ''text/plain'', file_name = ''empty.txt'', file_size = 0\<rparr> s)
     = ''block''
   \<and> errorsShown
       (processFile \<lparr>file_type = ''text/plain'', file_name = ''empty.txt'', file_size = 0\<rparr> s)
     = errorsShown s"
  by (simp add: processFile_def maxSize_def)

subsection \<open>The polling loop\<close>

lemma timers_pollContinue_failure:
  assumes "pollTimerOwned s" and "outcome \<in> {Rejected, NotOk, BadJson, DecodedNull}"
  shows "timers (pollContinue outcome s) = []"
  using assms
  by (auto simp: pollTimerOwned_def app_defs removeAll_only split: option.splits)

lemma timers_pollContinue_terminal:
  assumes "pollTimerOwned s" and "st_status p = ''completed'' \<or> st_status p = ''failed''"
  shows "timers (pollContinue (Decoded p) s) = []"
  using assms
  by (auto simp: pollTimerOwned_def app_defs Let_def removeAll_only split: option.splits)

lemma timers_pollContinue_running:
  assumes "st_status p \<noteq> ''completed''" and "st_status p \<noteq> ''failed''"
  shows "timers (pollContinue (Decoded p) s) = timers s"
  using assms by (simp add: app_defs Let_def)

lemma pollContinue_failure_report:
  assumes "outcome \<in> {Rejected, NotOk, BadJson, DecodedNull}"
  shows "errorsShown (pollContinue outcome s)
           = errorsShown s @ [''Unable to get processing status'']
       \<and> errorText (pollContinue outcome s) = ''Unable to get processing status''
       \<and> errorMessage_display (pollContinue outcome s) = ''block''
       \<and> generateButton_disabled (pollContinue outcome s) = False
       \<and> generateButton_display (pollContinue outcome s) = ''block''
       \<and> generateButton_text (pollContinue outcome s) = ''Start Generate Meeting Minutes''
       \<and> progressContainer_display (pollContinue outcome s) = ''none''
       \<and> statusRequests (pollContinue outcome s) = statusRequests s"
  using assms
  by (auto simp: pollContinue_def pollFailed_def clearPollTimer_def resetGenerateButton_def
      showError_def split: option.splits)

text \<open>
  Claim C2, as amended. In every state the script can reach, the polling loop stops at
  the first transport-level failure (request rejected, status not 2xx, body not
  decodable), whatever came before: when such a poll settles no interval timer is left,
  the error \<^verbatim>\<open>Unable to get processing status\<close> is reported, and the generate button is
  enabled and shown again with its start caption, the progress container hidden. The
  loop also stops when a poll reports completed or failed, and on reset. A decoded
  status that is neither keeps the timer as it is.
\<close>

theorem poll_stops_on_first_failure:
  assumes "pollTimerOwned s" and "i < length (statusRequests s)"
  shows "(outcome \<in> {Rejected, NotOk, BadJson, DecodedNull}
            \<longrightarrow> timers (pollSettled i outcome s) = []
              \<and> errorsShown (pollSettled i outcome s)
                  = errorsShown s @ [''Unable to get processing status'']
              \<and> errorText (pollSettled i outcome s) = ''Unable to get processing status''
              \<and> errorMessage_display (pollSettled i outcome s) = ''block''
              \<and> generateButton_disabled (pollSettled i outcome s) = False
              \<and> generateButton_display (pollSettled i outcome s) = ''block''
              \<and> generateButton_text (pollSettled i outcome s)
                  = ''Start Generate Meeting Minutes''
              \<and> progressContainer_display (pollSettled i outcome s) = ''none''
              \<and> statusRequests (pollSettled i outcome s)
                  = take i (statusRequests s) @ drop (Suc i) (statusRequests s))
       \<and> (st_status p = ''completed'' \<or> st_status p = ''failed''
            \<longrightarrow> timers (pollSettled i (Decoded p) s) = [])
       \<and> (st_status p \<noteq> ''completed'' \<and> st_status p \<noteq> ''failed''
            \<longrightarrow> timers (pollSettled i (Decoded p) s) = timers s)
       \<and> timers (handleReset s) = []"
proof -
  let ?s0 = "s\<lparr>statusRequests := take i (statusRequests s) @ drop (Suc i) (statusRequests s)\<rparr>"
  have o: "pollTimerOwned ?s0"
    using assms(1) by (auto simp: pollTimerOwned_def split: option.splits)
  have t: "timers ?s0 = timers s" "errorsShown ?s0 = errorsShown s"
    "statusRequests ?s0 = take i (statusRequests s) @ drop (Suc i) (statusRequests s)"
    by simp_all
  have e: "pollSettled i x s = pollContinue x ?s0" for x
    using assms(2) by (simp add: pollSettled_def)
  show ?thesis
    using timers_pollContinue_failure [OF o, of outcome]
      pollContinue_failure_report [of outcome ?s0]
      timers_pollContinue_terminal [OF o, of p]
      timers_pollContinue_running [of p ?s0]
      timers_handleReset [OF assms(1)]
    unfolding e by (simp only: t) blast
qed

theorem poll_stops_on_first_failure_witness:
  "pollTimerOwned (pollTick 1 polling)
   \<and> 0 < length (statusRequests (pollTick 1 polling))
   \<and> timers (pollTick 1 polling) = [1]
   \<and> generateButton_disabled (pollTick 1 polling) = True
   \<and> timers (pollSettled 0 NotOk (pollTick 1 polling)) = []
   \<and> errorsShown (pollSettled 0 NotOk (pollTick 1 polling))
       = [''Unable to get processing status'']
   \<and> generateButton_disabled (pollSettled 0 NotOk (pollTick 1 polling)) = False
   \<and> generateButton_display (pollSettled 0 NotOk (pollTick 1 polling)) = ''block''
   \<and> timers (pollSettled 0
        (Decoded \<lparr>st_status = ''completed'', st_progress = 100, st_error = []\<rparr>)
        (pollTick 1 polling)) = []
   \<and> timers (pollSettled 0
        (Decoded \<lparr>st_status = ''processing'', st_progress = 55, st_error = []\<rparr>)
        (pollTick 1 polling)) = [1]
   \<and> timers (handleReset (pollTick 1 polling)) = []"
proof -
  have o: "pollTimerOwned (pollTick 1 polling)"
    by (rule owned_pollTick [OF owned_polling])
  have l: "0 < length (statusRequests (pollTick 1 polling))"
    and t: "timers (pollTick 1 polling) = [1]"
    and g: "generateButton_disabled (pollTick 1 polling) = True"
    and e: "errorsShown (pollTick 1 polling) = []"
    by (simp_all add: polling_eq pollTick_def)
  show ?thesis
    using o l t g e
      poll_stops_on_first_failure [OF o l, of NotOk
        "\<lparr>st_status = ''completed'', st_progress = 100, st_error = []\<rparr>"]
      poll_stops_on_first_failure [OF o l, of NotOk
        "\<lparr>st_status = ''processing'', st_progress = 55, st_error = []\<rparr>"]
    by simp
qed

text \<open>
  Claim C2 as stated fails: one poll answered with a status that is not 2xx stops the
  loop. The timer is cleared, and a later tick of it dispatches nothing.
\<close>

theorem poll_single_failure_counterexample:
  "timers polling = [1]
   \<and> timers (app_run polling [TimerFires 1, StatusSettles 0 NotOk]) = []
   \<and> errorsShown (app_run polling [TimerFires 1, StatusSettles 0 NotOk])
       = [''Unable to get processing status'']
   \<and> statusRequests (app_run polling [TimerFires 1, StatusSettles 0 NotOk, TimerFires 1]) = []"
  by (simp add: polling_eq app_run_def app_defs)

text \<open>
  Claim C3, as amended. Reset clears the poll timer, so in every reachable state no tick
  dispatches a request after it; but it leaves the requests in flight as they are, and
  when one of them settles the rest of the callback runs without any test of the
  session: a decoded status overwrites the progress bar, a completed status reveals the
  download section (with a link for the id null), and a failure is reported.
\<close>

theorem reset_keeps_requests_in_flight:
  assumes "i < length (statusRequests s)"
  shows "statusRequests (handleReset s) = statusRequests s
       \<and> progressFill_width (pollSettled i (Decoded p) (handleReset s)) = st_progress p
       \<and> (st_status p = ''completed''
            \<longrightarrow> downloadSection_display (pollSettled i (Decoded p) (handleReset s)) = ''block''
              \<and> downloadWord_href (pollSettled i (Decoded p) (handleReset s))
                  = ''/api/download/word/null'')
       \<and> (outcome \<in> {Rejected, NotOk, BadJson, DecodedNull}
            \<longrightarrow> errorMessage_display (pollSettled i outcome (handleReset s)) = ''block''
              \<and> errorsShown (pollSettled i outcome (handleReset s))
                  = errorsShown s @ [''Unable to get processing status''])
       \<and> (pollTimerOwned s \<longrightarrow> pollTick h (handleReset s) = handleReset s)"
proof -
  have r: "statusRequests (handleReset s) = statusRequests s"
    by (simp add: app_defs Let_def split: option.splits)
  have c: "currentFileId (handleReset s) = None"
    and e: "errorsShown (handleReset s) = errorsShown s"
    by (simp_all add: app_defs Let_def split: option.splits)
  let ?s0 = "(handleReset s)\<lparr>statusRequests :=
      take i (statusRequests (handleReset s)) @ drop (Suc i) (statusRequests (handleReset s))\<rparr>"
  have st: "pollSettled i x (handleReset s) = pollContinue x ?s0" for x
    using assms r by (simp add: pollSettled_def)
  have c0: "currentFileId ?s0 = None" and e0: "errorsShown ?s0 = errorsShown s"
    using c e by simp_all
  have w: "progressFill_width (pollContinue (Decoded p) ?s0) = st_progress p"
    by (simp add: pollContinue_def updateProgress_def showDownloadSection_def showSuccess_def
        clearPollTimer_def resetGenerateButton_def showError_def Let_def split: option.splits)
  have d: "st_status p = ''completed'' \<Longrightarrow>
      downloadSection_display (pollContinue (Decoded p) ?s0) = ''block''
      \<and> downloadWord_href (pollContinue (Decoded p) ?s0) = ''/api/download/word/null''"
    using c0
    by (simp add: pollContinue_def updateProgress_def showDownloadSection_def showSuccess_def
        clearPollTimer_def idText_def Let_def split: option.splits)
  have f: "outcome \<in> {Rejected, NotOk, BadJson, DecodedNull} \<Longrightarrow>
      errorMessage_display (pollContinue outcome ?s0) = ''block''
      \<and> errorsShown (pollContinue outcome ?s0) = errorsShown s @ [''Unable to get processing status'']"
    using e0
    by (auto simp: pollContinue_def pollFailed_def clearPollTimer_def resetGenerateButton_def
        showError_def split: option.splits)
  have k: "pollTimerOwned s \<Longrightarrow> pollTick h (handleReset s) = handleReset s"
    using timers_handleReset [of s] by (simp add: pollTick_def)
  show ?thesis
    unfolding st using r w d f k by blast
qed

theorem reset_keeps_requests_in_flight_witness:
  "0 < length (statusRequests (pollTick 1 polling))
   \<and> pollTimerOwned (pollTick 1 polling)
   \<and> statusRequests (handleReset (pollTick 1 polling)) = [Some ''abc123'']
   \<and> progressFill_width (handleReset (pollTick 1 polling)) = 10
   \<and> progressFill_width (pollSettled 0
        (Decoded \<lparr>st_status = ''completed'', st_progress = 100, st_error = []\<rparr>)
        (handleReset (pollTick 1 polling))) = 100
   \<and> downloadSection_display (pollSettled 0
        (Decoded \<lparr>st_status = ''completed'', st_progress = 100, st_error = []\<rparr>)
        (handleReset (pollTick 1 polling))) = ''block''
   \<and> errorsShown (pollSettled 0 Rejected (handleReset (pollTick 1 polling)))
        = [''Unable to get processing status'']
   \<and> pollTick 1 (handleReset (pollTick 1 polling)) = handleReset (pollTick 1 polling)"
proof -
  have o: "pollTimerOwned (pollTick 1 polling)"
    by (rule owned_pollTick [OF owned_polling])
  have l: "0 < length (statusRequests (pollTick 1 polling))"
    and q: "statusRequests (pollTick 1 polling) = [Some ''abc123'']"
    and e: "errorsShown (pollTick 1 polling) = []"
    by (simp_all add: polling_eq pollTick_def)
  have w: "progressFill_width (handleReset (pollTick 1 polling)) = 10"
    by (simp add: polling_eq app_defs Let_def)
  show ?thesis
    using o l q e w
      reset_keeps_requests_in_flight [OF l,
        of "\<lparr>st_status = ''completed'', st_progress = 100, st_error = []\<rparr>" Rejected 1]
    by simp
qed

text \<open>
  Claim C3 as stated fails: a status request is dispatched, the user resets, and the
  response that arrives afterwards still rewrites the reset page. The progress bar
  goes from the 10 of the reset page to 100 and the download section appears, with a
  link for the id null.
\<close>

theorem stale_resolution_counterexample:
  "currentFileId (app_run polling [TimerFires 1, ClickReset]) = None
   \<and> downloadSection_display (app_run polling [TimerFires 1, ClickReset]) = ''none''
   \<and> progressFill_width (app_run polling [TimerFires 1, ClickReset]) = 10
   \<and> progressFill_width (app_run polling [TimerFires 1, ClickReset, StatusSettles 0
        (Decoded \<lparr>st_status = ''completed'', st_progress = 100, st_error = []\<rparr>)]) = 100
   \<and> downloadSection_display (app_run polling [TimerFires 1, ClickReset, StatusSettles 0
        (Decoded \<lparr>st_status = ''completed'', st_progress = 100, st_error = []\<rparr>)]) = ''block''
   \<and> downloadWord_href (app_run polling [TimerFires 1, ClickReset, StatusSettles 0
        (Decoded \<lparr>st_status = ''completed'', st_progress = 100, st_error = []\<rparr>)])
       = ''/api/download/word/null''"
  by (simp add: polling_eq app_run_def app_defs Let_def idText_def statusMessages_def)

lemma pollTick_live:
  "h \<in> set (timers s) \<Longrightarrow>
   timers (pollTick h s) = timers s
   \<and> statusRequests (pollTick h s) = statusRequests s @ [currentFileId s]"
  by (simp add: pollTick_def)

lemma pollTick_funpow:
  "h \<in> set (timers s) \<Longrightarrow>
   h \<in> set (timers ((pollTick h ^^ n) s))
   \<and> length (statusRequests ((pollTick h ^^ n) s)) = length (statusRequests s) + n"
  by (induction n) (simp_all add: pollTick_live)

lemma pm_tick_live:
  "map_of (pm_intervals t) k = Some pid \<Longrightarrow>
   pm_intervals (pm_tick k t) = pm_intervals t
   \<and> pm_requests (pm_tick k t) = pm_requests t @ [pid]"
  by (simp add: pm_tick_def checkProgress_dispatch_def)

lemma pm_tick_funpow:
  "map_of (pm_intervals t) k = Some pid \<Longrightarrow>
   pm_intervals ((pm_tick k ^^ n) t) = pm_intervals t
   \<and> length (pm_requests ((pm_tick k ^^ n) t)) = length (pm_requests t) + n"
  by (induction n) (simp_all add: pm_tick_live)

text \<open>
  Claim C4, as amended. Every tick of a live poll timer dispatches one more status
  request, whatever is still in flight: the tick appends a request for the current id,
  and \<open>n\<close> ticks with no response in between leave \<open>n\<close> more requests in flight. The
  progress manager's timer does the same with its own requests.
\<close>

theorem every_tick_dispatches:
  "(h \<in> set (timers s)
      \<longrightarrow> statusRequests (pollTick h s) = statusRequests s @ [currentFileId s]
        \<and> length (statusRequests ((pollTick h ^^ n) s)) = length (statusRequests s) + n)
   \<and> (map_of (pm_intervals t) k = Some pid
      \<longrightarrow> pm_requests (pm_tick k t) = pm_requests t @ [pid]
        \<and> length (pm_requests ((pm_tick k ^^ n) t)) = length (pm_requests t) + n)"
  using pollTick_live [of h s] pollTick_funpow [of h s n]
    pm_tick_live [of t k pid] pm_tick_funpow [of t k pid n]
  by blast

theorem every_tick_dispatches_witness:
  "1 \<in> set (timers polling)
   \<and> statusRequests (pollTick 1 polling) = [Some ''abc123'']
   \<and> length (statusRequests ((pollTick 1 ^^ 5) polling)) = 5
   \<and> map_of (pm_intervals (startProgress ''p1'' (pm_new None None None))) 1 = Some ''p1''
   \<and> length (pm_requests ((pm_tick 1 ^^ 5) (startProgress ''p1'' (pm_new None None None)))) = 5"
proof -
  have a: "1 \<in> set (timers polling)" "statusRequests polling = []"
    "currentFileId polling = Some ''abc123''"
    by (simp_all add: polling_eq)
  have b: "map_of (pm_intervals (startProgress ''p1'' (pm_new None None None))) 1 = Some ''p1''"
    "pm_requests (startProgress ''p1'' (pm_new None None None)) = []"
    by (simp_all add: startProgress_def pm_new_def updateProgress_pm_def showProgress_pm_def
        Let_def)
  show ?thesis
    using a b
      every_tick_dispatches [of 1 polling 5 "startProgress ''p1'' (pm_new None None None)" 1
        "''p1''"]
    by simp
qed

text \<open>
  Claim C4 as stated fails: two ticks of the poll timer with no response in between
  leave two status requests in flight.
\<close>

theorem overlapping_requests_counterexample:
  "statusRequests polling = []
   \<and> statusRequests (app_run polling [TimerFires 1]) = [Some ''abc123'']
   \<and> statusRequests (app_run polling [TimerFires 1, TimerFires 1])
       = [Some ''abc123'', Some ''abc123'']"
  by (simp add: polling_eq app_run_def pollTick_def)


section \<open>Properties of the download manager\<close>

lemmas dm_defs =
  showDownloadSection_dm_def hideDownloadSection_def setupDownloadHandlers_def
  initializeDownloads_def setDownloadButtonState_def resetDownloadButton_def
  showMessage_def downloadFailed_def downloadFile_def downloadSettled_def
  dm_timerFires_def clickButton_def reset_dm_def buttonOf_def putButton_def
  classRemove_def classAdd_def

lemma reset_dm_idem: "reset_dm (reset_dm d) = reset_dm d"
  by (cases "downloadSection d"; cases "downloadWordBtn d"; cases "downloadPdfBtn d";
      cases "downloadMessage d")
     (simp_all add: dm_defs Let_def)

lemma reset_dm_process: "currentProcessId (reset_dm d) = None"
  by (simp add: dm_defs Let_def split: option.splits)

lemma reset_dm_section:
  "downloadSection (reset_dm d) = (case downloadSection d of None \<Rightarrow> None | Some _ \<Rightarrow> Some ''none'')"
  by (simp add: dm_defs Let_def split: option.splits)

lemma dm_downloading_eq:
  "dm_downloading =
     \<lparr>downloadSection = Some ''block'',
      downloadWordBtn = Some \<lparr>classList = [''downloading''],
                              textContent = LabelDownloading ''WORD'', disabled = True,
                              onclick = Some ''word''\<rparr>,
      downloadPdfBtn = Some \<lparr>classList = [], textContent = LabelInitial, disabled = False,
                             onclick = Some ''pdf''\<rparr>,
      currentProcessId = Some ''abc123'', downloadMessage = None, dm_timers = [],
      dm_requests = [(''abc123'', ''word'')], savedFiles = []\<rparr>"
  by (simp add: dm_downloading_def dm_page_def dm_defs Let_def toUpperCase_def)


lemma buttonOf_putButton [simp]: "buttonOf ft (putButton ft b s) = Some b"
  by (simp add: buttonOf_def putButton_def)

lemma putButton_frame [simp]:
  "downloadSection (putButton ft b s) = downloadSection s"
  "downloadMessage (putButton ft b s) = downloadMessage s"
  "dm_timers (putButton ft b s) = dm_timers s"
  "dm_requests (putButton ft b s) = dm_requests s"
  "currentProcessId (putButton ft b s) = currentProcessId s"
  "savedFiles (putButton ft b s) = savedFiles s"
  by (simp_all add: putButton_def)

lemma buttonOf_frame [simp]:
  "buttonOf ft (s\<lparr>dm_timers := t\<rparr>) = buttonOf ft s"
  "buttonOf ft (s\<lparr>dm_requests := r\<rparr>) = buttonOf ft s"
  "buttonOf ft (s\<lparr>savedFiles := f\<rparr>) = buttonOf ft s"
  "buttonOf ft (s\<lparr>downloadMessage := m\<rparr>) = buttonOf ft s"
  by (simp_all add: buttonOf_def)

lemma setState_downloading:
  "buttonOf ft s = Some b \<Longrightarrow>
   setDownloadButtonState ft ''downloading'' s =
     putButton ft
       (b\<lparr>classList := classAdd ''downloading''
             (classRemove [''downloading'', ''completed'', ''error''] (classList b)),
           textContent := LabelDownloading (toUpperCase ft),
           disabled := True\<rparr>) s"
  by (simp add: setDownloadButtonState_def Let_def)

lemma setState_completed:
  "buttonOf ft s = Some b \<Longrightarrow>
   setDownloadButtonState ft ''completed'' s =
     (putButton ft
       (b\<lparr>classList := classAdd ''completed''
             (classRemove [''downloading'', ''completed'', ''error''] (classList b)),
           textContent := LabelDownloaded (toUpperCase ft),
           disabled := False\<rparr>) s)
     \<lparr>dm_timers := dm_timers s @ [(3000, ResetButton ft)]\<rparr>"
  by (simp add: setDownloadButtonState_def Let_def)

lemma setState_error:
  "buttonOf ft s = Some b \<Longrightarrow>
   setDownloadButtonState ft ''error'' s =
     (putButton ft
       (b\<lparr>classList := classAdd ''error''
             (classRemove [''downloading'', ''completed'', ''error''] (classList b)),
           textContent := LabelFailed (toUpperCase ft),
           disabled := False\<rparr>) s)
     \<lparr>dm_timers := dm_timers s @ [(5000, ResetButton ft)]\<rparr>"
  by (simp add: setDownloadButtonState_def Let_def)

lemma setState_normal:
  "buttonOf ft s = Some b \<Longrightarrow>
   setDownloadButtonState ft ''normal'' s =
     putButton ft
       (b\<lparr>classList := classRemove [''downloading'', ''completed'', ''error''] (classList b),
           textContent := (if ft = ''word'' then LabelDownloadWord else LabelDownloadPdf),
           disabled := False\<rparr>) s"
  by (simp add: setDownloadButtonState_def Let_def)

lemma downloadFile_started:
  assumes "currentProcessId s = Some pid" and "pid \<noteq> []" and "buttonOf ft s = Some b"
  shows "dm_requests (reached (downloadFile ft s)) = dm_requests s @ [(pid, ft)]
       \<and> buttonOf ft (reached (downloadFile ft s)) =
           Some (b\<lparr>classList := classAdd ''downloading''
                     (classRemove [''downloading'', ''completed'', ''error''] (classList b)),
                   textContent := LabelDownloading (toUpperCase ft),
                   disabled := True\<rparr>)"
  using assms by (simp add: downloadFile_def setState_downloading)

lemma downloadFile_no_process:
  assumes "currentProcessId s = None \<or> currentProcessId s = Some []"
    and "downloadSection s = Some disp"
  shows "downloadFile ft s =
           Returns (s\<lparr>downloadMessage :=
                        Some \<lparr>className = ''download-message error'',
                              messageText = ''No process ID available for download'',
                              messageDisplay = ''block''\<rparr>,
                      dm_timers := dm_timers s @ [(5000, HideMessage)]\<rparr>)"
  using assms by (auto simp: downloadFile_def showMessage_def)

lemma clickButton_disabled:
  assumes "buttonOf ft s = Some b" and "disabled b"
  shows "clickButton ft s = Returns s"
  using assms by (simp add: clickButton_def)

lemma downloadSettled_ok:
  assumes "i < length (dm_requests s)" and "snd (dm_requests s ! i) = ft"
    and "buttonOf ft s = Some b" and "downloadSection s = Some disp"
  shows "(\<exists>s'. downloadSettled i (DlOk h) stamp s = Returns s')
       \<and> buttonOf ft (reached (downloadSettled i (DlOk h) stamp s)) =
           Some (b\<lparr>classList := classAdd ''completed''
                     (classRemove [''downloading'', ''completed'', ''error''] (classList b)),
                   textContent := LabelDownloaded (toUpperCase ft),
                   disabled := False\<rparr>)
       \<and> dm_timers (reached (downloadSettled i (DlOk h) stamp s)) =
           dm_timers s @ [(3000, ResetButton ft), (5000, HideMessage)]
       \<and> savedFiles (reached (downloadSettled i (DlOk h) stamp s)) =
           savedFiles s @ [extractFilename h ft stamp]
       \<and> downloadMessage (reached (downloadSettled i (DlOk h) stamp s)) =
           Some \<lparr>className = ''download-message success'',
                 messageText = toUpperCase ft @ '' file downloaded successfully!'',
                 messageDisplay = ''block''\<rparr>"
proof -
  let ?s1 = "s\<lparr>dm_requests := take i (dm_requests s) @ drop (Suc i) (dm_requests s),
               savedFiles := savedFiles s @ [extractFilename h ft stamp]\<rparr>"
  have b1: "buttonOf ft ?s1 = Some b"
    using assms(3) by simp
  have d1: "downloadSection ?s1 = Some disp" "dm_timers ?s1 = dm_timers s"
    using assms(4) by simp_all
  show ?thesis
    using assms(1,2) d1
    by (simp add: downloadSettled_def Let_def setState_completed [OF b1] showMessage_def)
qed

lemma downloadSettled_failed:
  assumes "i < length (dm_requests s)" and "snd (dm_requests s ! i) = ft"
    and "buttonOf ft s = Some b" and "downloadSection s = Some disp"
    and "\<forall>h. outcome \<noteq> DlOk h"
  shows "(\<exists>s'. downloadSettled i outcome stamp s = Returns s')
       \<and> buttonOf ft (reached (downloadSettled i outcome stamp s)) =
           Some (b\<lparr>classList := classAdd ''error''
                     (classRemove [''downloading'', ''completed'', ''error''] (classList b)),
                   textContent := LabelFailed (toUpperCase ft),
                   disabled := False\<rparr>)
       \<and> dm_timers (reached (downloadSettled i outcome stamp s)) =
           dm_timers s @ [(5000, ResetButton ft), (5000, HideMessage)]
       \<and> savedFiles (reached (downloadSettled i outcome stamp s)) = savedFiles s
       \<and> (\<exists>m. downloadMessage (reached (downloadSettled i outcome stamp s)) =
             Some \<lparr>className = ''download-message error'',
                   messageText = ''Failed to download '' @ toUpperCase ft @ '' file: '' @ m,
                   messageDisplay = ''block''\<rparr>)"
proof -
  let ?s0 = "s\<lparr>dm_requests := take i (dm_requests s) @ drop (Suc i) (dm_requests s)\<rparr>"
  have b0: "buttonOf ft ?s0 = Some b"
    using assms(3) by simp
  have d0: "downloadSection ?s0 = Some disp" "dm_timers ?s0 = dm_timers s"
    using assms(4) by simp_all
  show ?thesis
    using assms(1,2,5) d0
    by (cases outcome)
       (simp_all add: downloadSettled_def Let_def downloadFailed_def setState_error [OF b0]
          showMessage_def)
qed

lemma resetDownloadButton_normal:
  assumes "buttonOf ft s = Some b"
  shows "buttonOf ft (resetDownloadButton ft s) =
           Some (b\<lparr>classList := classRemove [''downloading'', ''completed'', ''error'']
                                    (classList b),
                   textContent := (if ft = ''word'' then LabelDownloadWord
                                   else LabelDownloadPdf),
                   disabled := False\<rparr>)"
  using assms by (simp add: resetDownloadButton_def setState_normal)

lemma resetTimer_fires:
  assumes "i < length (dm_timers s)" and "snd (dm_timers s ! i) = ResetButton ft"
    and "buttonOf ft s = Some b"
  shows "buttonOf ft (dm_timerFires i s) =
           Some (b\<lparr>classList := classRemove [''downloading'', ''completed'', ''error'']
                                    (classList b),
                   textContent := (if ft = ''word'' then LabelDownloadWord
                                   else LabelDownloadPdf),
                   disabled := False\<rparr>)
       \<and> dm_timers (dm_timerFires i s) = take i (dm_timers s) @ drop (Suc i) (dm_timers s)"
proof -
  let ?s0 = "s\<lparr>dm_timers := take i (dm_timers s) @ drop (Suc i) (dm_timers s)\<rparr>"
  have b0: "buttonOf ft ?s0 = Some b"
    using assms(3) by simp
  show ?thesis
    using assms(1,2)
    by (simp add: dm_timerFires_def Let_def resetDownloadButton_def setState_normal [OF b0])
qed

text \<open>
  Claim C6, as amended. Take an artifact type whose button exists, on a page that has
  the download section. A call of downloadFile with a process id set puts the button
  into the downloading state (disabled) and issues one more request, whatever state the
  button was in and whatever is in flight. The only guards are the missing process id
  (null or empty: the error message is shown, no request is issued, no button changes)
  and the disabled button, on which a click does nothing. When the request settles with
  success the file is saved, the success message shown and the button goes to completed;
  when it settles in any other way (request rejected, status not 2xx, body not readable)
  the failure message is shown and the button goes to error. In both cases the button is
  enabled again and a timer (3000 ms after success, 5000 ms after failure) is
  scheduled, which puts the button back to normal when it fires.
\<close>

theorem download_button_states:
  "(currentProcessId s = Some pid \<and> pid \<noteq> [] \<and> buttonOf ft s = Some b
      \<longrightarrow> dm_requests (reached (downloadFile ft s)) = dm_requests s @ [(pid, ft)]
        \<and> buttonOf ft (reached (downloadFile ft s)) =
            Some (b\<lparr>classList := classAdd ''downloading''
                      (classRemove [''downloading'', ''completed'', ''error''] (classList b)),
                    textContent := LabelDownloading (toUpperCase ft),
                    disabled := True\<rparr>))
   \<and> ((currentProcessId s = None \<or> currentProcessId s = Some [])
        \<and> downloadSection s = Some disp
      \<longrightarrow> downloadFile ft s =
            Returns (s\<lparr>downloadMessage :=
                         Some \<lparr>className = ''download-message error'',
                               messageText = ''No process ID available for download'',
                               messageDisplay = ''block''\<rparr>,
                       dm_timers := dm_timers s @ [(5000, HideMessage)]\<rparr>))
   \<and> (buttonOf ft s = Some b \<and> disabled b \<longrightarrow> clickButton ft s = Returns s)
   \<and> (i < length (dm_requests s) \<and> snd (dm_requests s ! i) = ft \<and> buttonOf ft s = Some b
        \<and> downloadSection s = Some disp
      \<longrightarrow> (\<exists>s'. downloadSettled i (DlOk h) stamp s = Returns s')
        \<and> buttonOf ft (reached (downloadSettled i (DlOk h) stamp s)) =
            Some (b\<lparr>classList := classAdd ''completed''
                      (classRemove [''downloading'', ''completed'', ''error''] (classList b)),
                    textContent := LabelDownloaded (toUpperCase ft),
                    disabled := False\<rparr>)
        \<and> dm_timers (reached (downloadSettled i (DlOk h) stamp s)) =
            dm_timers s @ [(3000, ResetButton ft), (5000, HideMessage)]
        \<and> savedFiles (reached (downloadSettled i (DlOk h) stamp s)) =
            savedFiles s @ [extractFilename h ft stamp]
        \<and> downloadMessage (reached (downloadSettled i (DlOk h) stamp s)) =
            Some \<lparr>className = ''download-message success'',
                  messageText = toUpperCase ft @ '' file downloaded successfully!'',
                  messageDisplay = ''block''\<rparr>)
   \<and> (i < length (dm_requests s) \<and> snd (dm_requests s ! i) = ft \<and> buttonOf ft s = Some b
        \<and> downloadSection s = Some disp \<and> (\<forall>x. outcome \<noteq> DlOk x)
      \<longrightarrow> (\<exists>s'. downloadSettled i outcome stamp s = Returns s')
        \<and> buttonOf ft (reached (downloadSettled i outcome stamp s)) =
            Some (b\<lparr>classList := classAdd ''error''
                      (classRemove [''downloading'', ''completed'', ''error''] (classList b)),
                    textContent := LabelFailed (toUpperCase ft),
                    disabled := False\<rparr>)
        \<and> dm_timers (reached (downloadSettled i outcome stamp s)) =
            dm_timers s @ [(5000, ResetButton ft), (5000, HideMessage)]
        \<and> savedFiles (reached (downloadSettled i outcome stamp s)) = savedFiles s
        \<and> (\<exists>m. downloadMessage (reached (downloadSettled i outcome stamp s)) =
              Some \<lparr>className = ''download-message error'',
                    messageText = ''Failed to download '' @ toUpperCase ft @ '' file: '' @ m,
                    messageDisplay = ''block''\<rparr>))
   \<and> (j < length (dm_timers s) \<and> snd (dm_timers s ! j) = ResetButton ft
        \<and> buttonOf ft s = Some b
      \<longrightarrow> buttonOf ft (dm_timerFires j s) =
            Some (b\<lparr>classList := classRemove [''downloading'', ''completed'', ''error'']
                                     (classList b),
                    textContent := (if ft = ''word'' then LabelDownloadWord
                                    else LabelDownloadPdf),
                    disabled := False\<rparr>)
        \<and> dm_timers (dm_timerFires j s) = take j (dm_timers s) @ drop (Suc j) (dm_timers s))"
  using downloadFile_started [of s pid ft b] downloadFile_no_process [of s disp ft]
    clickButton_disabled [of ft s b] downloadSettled_ok [of i s ft b disp h stamp]
    downloadSettled_failed [of i s ft b disp outcome stamp] resetTimer_fires [of j s ft b]
  by blast

theorem download_button_states_witness:
  "currentProcessId dm_downloading = Some ''abc123''
   \<and> dm_requests (reached (downloadFile ''word'' dm_downloading))
       = [(''abc123'', ''word''), (''abc123'', ''word'')]
   \<and> clickButton ''word'' dm_downloading = Returns dm_downloading
   \<and> buttonOf ''word''
        (reached (downloadSettled 0 (DlOk None) ''2024-01-15T10:30:00.000Z'' dm_downloading))
       = Some \<lparr>classList = [''completed''], textContent = LabelDownloaded ''WORD'',
               disabled = False, onclick = Some ''word''\<rparr>
   \<and> dm_timers
        (reached (downloadSettled 0 (DlOk None) ''2024-01-15T10:30:00.000Z'' dm_downloading))
       = [(3000, ResetButton ''word''), (5000, HideMessage)]
   \<and> savedFiles
        (reached (downloadSettled 0 (DlOk None) ''2024-01-15T10:30:00.000Z'' dm_downloading))
       = [''meeting_minutes_2024-01-15.docx'']
   \<and> buttonOf ''word''
        (reached (downloadSettled 0 (DlRejected ''Failed to fetch'')
           ''2024-01-15T10:30:00.000Z'' dm_downloading))
       = Some \<lparr>classList = [''error''], textContent = LabelFailed ''WORD'',
               disabled = False, onclick = Some ''word''\<rparr>
   \<and> dm_timers
        (reached (downloadSettled 0 (DlRejected ''Failed to fetch'')
           ''2024-01-15T10:30:00.000Z'' dm_downloading))
       = [(5000, ResetButton ''word''), (5000, HideMessage)]
   \<and> buttonOf ''word''
        (dm_timerFires 0
           (reached (downloadSettled 0 (DlOk None) ''2024-01-15T10:30:00.000Z''
              dm_downloading)))
       = Some \<lparr>classList = [], textContent = LabelDownloadWord, disabled = False,
               onclick = Some ''word''\<rparr>
   \<and> downloadMessage (reached (downloadFile ''word'' (dm_downloading\<lparr>currentProcessId := None\<rparr>)))
       = Some \<lparr>className = ''download-message error'',
               messageText = ''No process ID available for download'',
               messageDisplay = ''block''\<rparr>"
proof -
  let ?done = "reached (downloadSettled 0 (DlOk None) ''2024-01-15T10:30:00.000Z''
                 dm_downloading)"
  have b: "buttonOf ''word'' dm_downloading =
      Some \<lparr>classList = [''downloading''], textContent = LabelDownloading ''WORD'',
            disabled = True, onclick = Some ''word''\<rparr>"
    and p: "currentProcessId dm_downloading = Some ''abc123''"
    and q: "dm_requests dm_downloading = [(''abc123'', ''word'')]"
    and t: "dm_timers dm_downloading = []"
    and f: "savedFiles dm_downloading = []"
    and d: "downloadSection dm_downloading = Some ''block''"
    by (simp_all add: dm_downloading_eq buttonOf_def)
  have u: "toUpperCase ''word'' = ''WORD''"
    by (simp add: toUpperCase_def)
  have n: "extractFilename None ''word'' ''2024-01-15T10:30:00.000Z''
      = ''meeting_minutes_2024-01-15.docx''"
    by (simp add: extractFilename_def default_filename_def)
  have first: "dm_requests (reached (downloadFile ''word'' dm_downloading))
       = [(''abc123'', ''word''), (''abc123'', ''word'')]
     \<and> clickButton ''word'' dm_downloading = Returns dm_downloading
     \<and> buttonOf ''word'' ?done
       = Some \<lparr>classList = [''completed''], textContent = LabelDownloaded ''WORD'',
               disabled = False, onclick = Some ''word''\<rparr>
     \<and> dm_timers ?done = [(3000, ResetButton ''word''), (5000, HideMessage)]
     \<and> savedFiles ?done = [''meeting_minutes_2024-01-15.docx'']
     \<and> buttonOf ''word''
        (reached (downloadSettled 0 (DlRejected ''Failed to fetch'')
           ''2024-01-15T10:30:00.000Z'' dm_downloading))
       = Some \<lparr>classList = [''error''], textContent = LabelFailed ''WORD'',
               disabled = False, onclick = Some ''word''\<rparr>
     \<and> dm_timers
        (reached (downloadSettled 0 (DlRejected ''Failed to fetch'')
           ''2024-01-15T10:30:00.000Z'' dm_downloading))
       = [(5000, ResetButton ''word''), (5000, HideMessage)]"
    using b p q t f d
      download_button_states [of dm_downloading "''abc123''" "''word''"
        "\<lparr>classList = [''downloading''], textContent = LabelDownloading ''WORD'',
          disabled = True, onclick = Some ''word''\<rparr>" "''block''" 0 None
        "''2024-01-15T10:30:00.000Z''" "DlRejected ''Failed to fetch''" 0]
    by (simp add: u n classAdd_def classRemove_def)
  have second: "buttonOf ''word'' (dm_timerFires 0 ?done)
       = Some \<lparr>classList = [], textContent = LabelDownloadWord, disabled = False,
               onclick = Some ''word''\<rparr>"
    using first
      download_button_states [of ?done "''abc123''" "''word''"
        "\<lparr>classList = [''completed''], textContent = LabelDownloaded ''WORD'',
          disabled = False, onclick = Some ''word''\<rparr>" "''block''" 0 None
        "''2024-01-15T10:30:00.000Z''" "DlRejected ''Failed to fetch''" 0]
    by (simp add: classRemove_def)
  have third: "downloadMessage
        (reached (downloadFile ''word'' (dm_downloading\<lparr>currentProcessId := None\<rparr>)))
       = Some \<lparr>className = ''download-message error'',
               messageText = ''No process ID available for download'',
               messageDisplay = ''block''\<rparr>"
    using d
      download_button_states [of "dm_downloading\<lparr>currentProcessId := None\<rparr>" "''abc123''"
        "''word''"
        "\<lparr>classList = [''downloading''], textContent = LabelDownloading ''WORD'',
          disabled = True, onclick = Some ''word''\<rparr>" "''block''" 0 None
        "''2024-01-15T10:30:00.000Z''" "DlRejected ''Failed to fetch''" 0]
    by simp
  show ?thesis
    using p first second third by simp
qed

text \<open>
  Claim C6 as stated fails: while the first download of the word file is in flight (the
  button carries the class downloading), a second call of downloadFile for the same type
  is not rejected; it issues a second request.
\<close>

theorem download_while_in_flight_counterexample:
  "buttonOf ''word'' dm_downloading =
     Some \<lparr>classList = [''downloading''], textContent = LabelDownloading ''WORD'',
           disabled = True, onclick = Some ''word''\<rparr>
   \<and> dm_requests dm_downloading = [(''abc123'', ''word'')]
   \<and> dm_requests (reached (downloadFile ''word'' dm_downloading))
       = [(''abc123'', ''word''), (''abc123'', ''word'')]"
  by (simp add: dm_downloading_eq buttonOf_def downloadFile_def setDownloadButtonState_def
      putButton_def Let_def del: buttonOf_putButton putButton_frame buttonOf_frame)

subsection \<open>The availability check\<close>

lemma checkDownloadStatus_returns: "\<exists>r. checkDownloadStatus backend pid = Inr r"
  by (simp add: checkDownloadStatus_def Let_def split: fetch_outcome.split sum.split)

lemma checkDownloadStatus_failed:
  assumes "backend (statusUrl pid) = FetchRejected \<or> backend (statusUrl pid) = JsonRejected"
  shows "checkDownloadStatus backend pid = Inr statusFailed"
  using assms by (auto simp: checkDownloadStatus_def)

lemma readStatus_object:
  "readStatus (JObj kvs) =
     Inr \<lparr>ds_success = (case map_of kvs ''success'' of None \<Rightarrow> JUndefined | Some v \<Rightarrow> v),
          wordReady = (case map_of kvs ''files'' of
                         None \<Rightarrow> JUndefined
                       | Some f \<Rightarrow> if truthy f then
                                     (case getProp f ''word'' of Inr v \<Rightarrow> v | Inl _ \<Rightarrow> JUndefined)
                                   else f),
          pdfReady = (case map_of kvs ''files'' of
                         None \<Rightarrow> JUndefined
                       | Some f \<Rightarrow> if truthy f then
                                     (case getProp f ''pdf'' of Inr v \<Rightarrow> v | Inl _ \<Rightarrow> JUndefined)
                                   else f),
          ds_message = (case map_of kvs ''message'' of None \<Rightarrow> JUndefined | Some v \<Rightarrow> v)\<rparr>"
proof (cases "map_of kvs ''files''")
  case None
  then show ?thesis
    by (simp add: readStatus_def andThen_def andProp_def split: option.split)
next
  case (Some f)
  then show ?thesis
    by (cases f) (simp_all add: readStatus_def andThen_def andProp_def split: option.split)
qed

lemma checkDownloadStatus_files:
  assumes "backend (statusUrl pid) = Body (JObj kvs)" and "map_of kvs ''files'' = Some (JObj fs)"
  shows "\<exists>r. checkDownloadStatus backend pid = Inr r
           \<and> truthy (wordReady r)
               = truthy (case map_of fs ''word'' of None \<Rightarrow> JUndefined | Some v \<Rightarrow> v)
           \<and> truthy (pdfReady r)
               = truthy (case map_of fs ''pdf'' of None \<Rightarrow> JUndefined | Some v \<Rightarrow> v)"
  using assms
  by (simp add: checkDownloadStatus_def readStatus_object split: option.split)

lemma checkDownloadStatus_no_files:
  assumes "backend (statusUrl pid) = Body (JObj kvs)" and "map_of kvs ''files'' = None"
  shows "\<exists>r. checkDownloadStatus backend pid = Inr r
           \<and> \<not> truthy (wordReady r) \<and> \<not> truthy (pdfReady r)"
  using assms
  by (simp add: checkDownloadStatus_def readStatus_object)

lemma checkDownloadStatus_files_other:
  assumes "backend (statusUrl pid) = Body (JObj kvs)" and "map_of kvs ''files'' = Some f"
    and "\<forall>fs. f \<noteq> JObj fs"
  shows "\<exists>r. checkDownloadStatus backend pid = Inr r
           \<and> \<not> truthy (wordReady r) \<and> \<not> truthy (pdfReady r)"
  using assms
  by (cases f) (simp_all add: checkDownloadStatus_def readStatus_object)

lemma checkDownloadStatus_not_object:
  assumes "backend (statusUrl pid) = Body d" and "\<forall>kvs. d \<noteq> JObj kvs"
  shows "\<exists>r. checkDownloadStatus backend pid = Inr r
           \<and> \<not> truthy (wordReady r) \<and> \<not> truthy (pdfReady r)"
  using assms
  by (cases d)
     (simp_all add: checkDownloadStatus_def readStatus_def andThen_def andProp_def
        statusFailed_def)

lemma checkDownloadStatus_null:
  assumes "backend (statusUrl pid) = Body JNull"
  shows "checkDownloadStatus backend pid = Inr statusFailed"
  using assms by (simp add: checkDownloadStatus_def readStatus_def andThen_def)

text \<open>
  Claim C10. For every process id and every answer of the backend, checkDownloadStatus
  returns an object and never throws. If the request is rejected or the body is not JSON
  it returns the fixed object with success, wordReady and pdfReady false and the message
  \<^verbatim>\<open>Failed to check download status\<close>. For a decoded body whose \<^verbatim>\<open>files\<close> is an object,
  wordReady and pdfReady are truthy exactly when \<^verbatim>\<open>files.word\<close> and \<^verbatim>\<open>files.pdf\<close> are; for
  every other decoded body (an object without \<^verbatim>\<open>files\<close>, or whose \<^verbatim>\<open>files\<close> is no object,
  or a body that is no object, \<^verbatim>\<open>null\<close> included) there is no \<^verbatim>\<open>files.word\<close> and no
  \<^verbatim>\<open>files.pdf\<close>, and both are falsy.
\<close>

theorem checkDownloadStatus_never_throws:
  "(\<exists>r. checkDownloadStatus backend pid = Inr r)
   \<and> (backend (statusUrl pid) = FetchRejected \<or> backend (statusUrl pid) = JsonRejected
      \<longrightarrow> checkDownloadStatus backend pid =
            Inr \<lparr>ds_success = JBool False, wordReady = JBool False, pdfReady = JBool False,
                 ds_message = JStr ''Failed to check download status''\<rparr>)
   \<and> (backend (statusUrl pid) = Body (JObj kvs) \<and> map_of kvs ''files'' = Some (JObj fs)
      \<longrightarrow> (\<exists>r. checkDownloadStatus backend pid = Inr r
             \<and> truthy (wordReady r)
                 = truthy (case map_of fs ''word'' of None \<Rightarrow> JUndefined | Some v \<Rightarrow> v)
             \<and> truthy (pdfReady r)
                 = truthy (case map_of fs ''pdf'' of None \<Rightarrow> JUndefined | Some v \<Rightarrow> v)))
   \<and> (backend (statusUrl pid) = Body (JObj kvs) \<and> map_of kvs ''files'' = None
      \<longrightarrow> (\<exists>r. checkDownloadStatus backend pid = Inr r
             \<and> \<not> truthy (wordReady r) \<and> \<not> truthy (pdfReady r)))
   \<and> (backend (statusUrl pid) = Body (JObj kvs) \<and> map_of kvs ''files'' = Some f
        \<and> (\<forall>x. f \<noteq> JObj x)
      \<longrightarrow> (\<exists>r. checkDownloadStatus backend pid = Inr r
             \<and> \<not> truthy (wordReady r) \<and> \<not> truthy (pdfReady r)))
   \<and> (backend (statusUrl pid) = Body d \<and> (\<forall>x. d \<noteq> JObj x)
      \<longrightarrow> (\<exists>r. checkDownloadStatus backend pid = Inr r
             \<and> \<not> truthy (wordReady r) \<and> \<not> truthy (pdfReady r)))"
  using checkDownloadStatus_returns [of backend pid]
    checkDownloadStatus_failed [of backend pid]
    checkDownloadStatus_files [of backend pid kvs fs]
    checkDownloadStatus_no_files [of backend pid kvs]
    checkDownloadStatus_files_other [of backend pid kvs f]
    checkDownloadStatus_not_object [of backend pid d]
  unfolding statusFailed_def by blast

theorem checkDownloadStatus_never_throws_witness:
  "checkDownloadStatus (\<lambda>u. FetchRejected) ''abc123'' =
     Inr \<lparr>ds_success = JBool False, wordReady = JBool False, pdfReady = JBool False,
          ds_message = JStr ''Failed to check download status''\<rparr>
   \<and> (\<exists>r. checkDownloadStatus
            (\<lambda>u. if u = ''/api/download/abc123/status''
                  then Body (JObj [(''success'', JBool True),
                                   (''files'', JObj [(''word'', JStr ''minutes.docx''),
                                                     (''pdf'', JBool False)])])
                  else FetchRejected) ''abc123'' = Inr r
          \<and> truthy (wordReady r) \<and> \<not> truthy (pdfReady r))
   \<and> (\<exists>r. checkDownloadStatus (\<lambda>u. Body (JObj [(''success'', JBool True)])) ''abc123'' = Inr r
          \<and> \<not> truthy (wordReady r) \<and> \<not> truthy (pdfReady r))
   \<and> (\<exists>r. checkDownloadStatus (\<lambda>u. Body JNull) ''abc123'' = Inr r
          \<and> \<not> truthy (wordReady r) \<and> \<not> truthy (pdfReady r))"
  using
    checkDownloadStatus_never_throws [of "\<lambda>u. FetchRejected" "''abc123''" "[]" "[]"
      JNull JNull]
    checkDownloadStatus_never_throws [of "\<lambda>u. Body JNull" "''abc123''" "[]" "[]" JNull JNull]
    checkDownloadStatus_never_throws [of
      "\<lambda>u. if u = ''/api/download/abc123/status''
           then Body (JObj [(''success'', JBool True),
                            (''files'', JObj [(''word'', JStr ''minutes.docx''),
                                              (''pdf'', JBool False)])])
           else FetchRejected" "''abc123''"
      "[(''success'', JBool True),
        (''files'', JObj [(''word'', JStr ''minutes.docx''), (''pdf'', JBool False)])]"
      "[(''word'', JStr ''minutes.docx''), (''pdf'', JBool False)]" JNull JNull]
    checkDownloadStatus_never_throws [of "\<lambda>u. Body (JObj [(''success'', JBool True)])"
      "''abc123''" "[(''success'', JBool True)]" "[]" JNull JNull]
  by (simp add: statusUrl_def)


section \<open>Reset\<close>

lemma owned_pageLoaded: "pollTimerOwned pageLoaded"
  by (simp add: pollTimerOwned_def pageLoaded_def)

lemma handleReset_fields:
  "currentFileId (handleReset s) = None \<and> selectedFile (handleReset s) = None
   \<and> processCheckInterval (handleReset s) = None
   \<and> fileInput_value (handleReset s) = []
   \<and> fileInfo_display (handleReset s) = ''none''
   \<and> generateSection_display (handleReset s) = ''none''
   \<and> downloadSection_display (handleReset s) = ''none''
   \<and> progressContainer_display (handleReset s) = ''none''
   \<and> generateButton_disabled (handleReset s) = False
   \<and> generateButton_text (handleReset s) = ''Start Generate Meeting Minutes''
   \<and> generateButton_display (handleReset s) = ''block''
   \<and> errorMessage_display (handleReset s) = ''none''
   \<and> errorMessage_fadeIn (handleReset s) = False
   \<and> successMessage_display (handleReset s) = ''none''
   \<and> successMessage_fadeIn (handleReset s) = False
   \<and> downloadWord_href (handleReset s) = downloadWord_href s
   \<and> downloadWord_display (handleReset s) = downloadWord_display s"
  by (simp add: app_defs Let_def split: option.splits)

lemma reset_dm_message:
  "downloadMessage (reset_dm d) =
     (case downloadMessage d of
        None \<Rightarrow> None
      | Some m \<Rightarrow> Some (m\<lparr>messageDisplay := ''none''\<rparr>))"
  by (cases "downloadSection d"; cases "downloadWordBtn d"; cases "downloadPdfBtn d";
      cases "downloadMessage d")
     (simp_all add: dm_defs Let_def del: buttonOf_putButton putButton_frame buttonOf_frame)

lemma reset_dm_button_exact:
  "buttonOf ft (reset_dm d) =
     (case buttonOf ft d of
        None \<Rightarrow> None
      | Some b \<Rightarrow>
          Some (b\<lparr>classList := classRemove [''downloading'', ''completed'', ''error'']
                                   (classList b),
                  textContent := (if ft = ''word'' then LabelDownloadWord
                                  else LabelDownloadPdf),
                  disabled := False\<rparr>))"
  by (cases "downloadSection d"; cases "downloadWordBtn d"; cases "downloadPdfBtn d";
      cases "downloadMessage d")
     (simp_all add: dm_defs Let_def del: buttonOf_putButton putButton_frame buttonOf_frame)

text \<open>
  Claim C8, as amended. Start from a state in which every live timer is the one the
  script holds (true at page load, where there is none) and let any events happen. Then
  a second handleReset changes nothing after a first one, and after it the page is idle:
  no file id and no file are stored, no interval timer is live, the file input is
  cleared, the file info and the generate, download and progress sections are hidden,
  the generate button is enabled and shown with its start caption, and the error and
  success messages are hidden. The download link inside the hidden section keeps its
  address and its display, and handleReset does nothing to the download manager, whose
  state is cleared by its own reset only. That reset, in any state, changes nothing when
  repeated; it clears the process id, hides the section and the message if they exist,
  and leaves every button that exists enabled, with its default caption and without the
  classes downloading, completed and error.
\<close>

theorem reset_idempotent:
  assumes "pollTimerOwned s0"
  shows "handleReset (handleReset (app_run s0 es)) = handleReset (app_run s0 es)
       \<and> currentFileId (handleReset (app_run s0 es)) = None
       \<and> selectedFile (handleReset (app_run s0 es)) = None
       \<and> processCheckInterval (handleReset (app_run s0 es)) = None
       \<and> timers (handleReset (app_run s0 es)) = []
       \<and> fileInput_value (handleReset (app_run s0 es)) = []
       \<and> fileInfo_display (handleReset (app_run s0 es)) = ''none''
       \<and> generateSection_display (handleReset (app_run s0 es)) = ''none''
       \<and> downloadSection_display (handleReset (app_run s0 es)) = ''none''
       \<and> progressContainer_display (handleReset (app_run s0 es)) = ''none''
       \<and> generateButton_disabled (handleReset (app_run s0 es)) = False
       \<and> generateButton_text (handleReset (app_run s0 es)) = ''Start Generate Meeting Minutes''
       \<and> generateButton_display (handleReset (app_run s0 es)) = ''block''
       \<and> errorMessage_display (handleReset (app_run s0 es)) = ''none''
       \<and> errorMessage_fadeIn (handleReset (app_run s0 es)) = False
       \<and> successMessage_display (handleReset (app_run s0 es)) = ''none''
       \<and> successMessage_fadeIn (handleReset (app_run s0 es)) = False
       \<and> downloadWord_href (handleReset (app_run s0 es)) = downloadWord_href (app_run s0 es)
       \<and> downloadWord_display (handleReset (app_run s0 es))
           = downloadWord_display (app_run s0 es)
       \<and> reset_dm (reset_dm d) = reset_dm d
       \<and> currentProcessId (reset_dm d) = None
       \<and> downloadSection (reset_dm d)
           = (case downloadSection d of None \<Rightarrow> None | Some x \<Rightarrow> Some ''none'')
       \<and> downloadMessage (reset_dm d)
           = (case downloadMessage d of
                None \<Rightarrow> None
              | Some m \<Rightarrow> Some (m\<lparr>messageDisplay := ''none''\<rparr>))
       \<and> buttonOf ft (reset_dm d)
           = (case buttonOf ft d of
                None \<Rightarrow> None
              | Some b \<Rightarrow>
                  Some (b\<lparr>classList := classRemove [''downloading'', ''completed'', ''error'']
                                           (classList b),
                          textContent := (if ft = ''word'' then LabelDownloadWord
                                          else LabelDownloadPdf),
                          disabled := False\<rparr>))"
proof -
  have o: "pollTimerOwned (app_run s0 es)"
    using assms by (rule owned_run)
  show ?thesis
    using handleReset_idem [of "app_run s0 es"] handleReset_fields [of "app_run s0 es"]
      timers_handleReset [OF o] reset_dm_idem [of d] reset_dm_process [of d]
      reset_dm_section [of d] reset_dm_message [of d] reset_dm_button_exact [of ft d]
    by simp
qed

theorem reset_idempotent_witness:
  "pollTimerOwned pageLoaded
   \<and> timers polling = [1]
   \<and> generateButton_disabled polling = True
   \<and> handleReset (handleReset polling) = handleReset polling
   \<and> currentFileId (handleReset polling) = None
   \<and> selectedFile (handleReset polling) = None
   \<and> timers (handleReset polling) = []
   \<and> generateButton_disabled (handleReset polling) = False
   \<and> progressContainer_display (handleReset polling) = ''none''
   \<and> reset_dm (reset_dm dm_downloading) = reset_dm dm_downloading
   \<and> currentProcessId (reset_dm dm_downloading) = None
   \<and> downloadSection (reset_dm dm_downloading) = Some ''none''
   \<and> buttonOf ''word'' (reset_dm dm_downloading)
       = Some \<lparr>classList = [], textContent = LabelDownloadWord, disabled = False,
               onclick = Some ''word''\<rparr>"
proof -
  have t: "timers polling = [1]" "generateButton_disabled polling = True"
    by (simp_all add: polling_eq)
  have b: "buttonOf ''word'' dm_downloading =
      Some \<lparr>classList = [''downloading''], textContent = LabelDownloading ''WORD'',
            disabled = True, onclick = Some ''word''\<rparr>"
    and d: "downloadSection dm_downloading = Some ''block''"
    by (simp_all add: dm_downloading_eq buttonOf_def)
  show ?thesis
    using t b d
      reset_idempotent [OF owned_pageLoaded,
        of "[SelectFile transcript, ClickGenerate, UploadSettles (UploadOk ''abc123''),
             GenerateSettles GenOk]" dm_downloading "''word''"]
    by (simp add: owned_pageLoaded polling_def classRemove_def)
qed

text \<open>
  Claim C8 as stated fails in its last part: a session that was polled to completion
  and then reset twice is idle, with no file id, but the download link for the word
  file still carries the address of the old file and its display.
\<close>

theorem reset_leaves_download_link_counterexample:
  "currentFileId
     (app_run polling
        [TimerFires 1,
         StatusSettles 0 (Decoded \<lparr>st_status = ''completed'', st_progress = 100, st_error = []\<rparr>),
         ClickReset, ClickReset]) = None
   \<and> downloadWord_href
       (app_run polling
          [TimerFires 1,
           StatusSettles 0 (Decoded \<lparr>st_status = ''completed'', st_progress = 100, st_error = []\<rparr>),
           ClickReset, ClickReset]) = ''/api/download/word/abc123''
   \<and> downloadWord_display
       (app_run polling
          [TimerFires 1,
           StatusSettles 0 (Decoded \<lparr>st_status = ''completed'', st_progress = 100, st_error = []\<rparr>),
           ClickReset, ClickReset]) = ''inline-block''"
  by (simp add: polling_eq app_run_def app_defs Let_def idText_def statusMessages_def)


section \<open>Properties of the notifications\<close>



lemma showNotification_schedules:
  "ux_timers (showNotification t title m a now s) =
     ux_timers s @ [(10, AddShow (ux_nextNode s))]
       @ (if t = ''error'' then [] else [(5000, AutoHide now)])"
  by (simp add: showNotification_def Let_def)

lemma feedbackShown_eq:
  "feedbackShown =
     \<lparr>container =
        [\<lparr>n_node = 0, n_id = 1000, n_type = ''error'', n_title = ''File type validation'',
          n_message = ''Please select a .txt file'', n_actions = [], n_show = False\<rparr>,
         \<lparr>n_node = 1, n_id = 1000, n_type = ''success'', n_title = ''File size validation'',
          n_message = ''File size OK'', n_actions = [], n_show = False\<rparr>,
         \<lparr>n_node = 2, n_id = 1000, n_type = ''success'', n_title = ''File content validation'',
          n_message = ''File contains data'', n_actions = [], n_show = False\<rparr>],
      notifications = [(1000, 0, ''error''), (1000, 1, ''success''), (1000, 2, ''success'')],
      ux_timers = [(10, AddShow 0), (10, AddShow 1), (5000, AutoHide 1000), (10, AddShow 2),
                   (5000, AutoHide 1000)],
      ux_nextNode = 3\<rparr>"
  by (simp add: feedbackShown_def showNotification_def ux_new_def Let_def)

text \<open>
  Claim C7 (where the code misses it). The three notifications of one file check are
  created within the same millisecond and so carry the same identifier. No timeout is
  scheduled for the error notification itself, but the timeouts of the two success
  notifications call hideNotification with that shared identifier, and the lookup finds
  the first element that carries it, which is the error notification. When all timers
  have fired, in the order of their due times, the error notification is gone without
  any explicit dismissal and both success notifications are still shown.
\<close>

theorem error_notification_auto_removed:
  "map n_type (container feedbackShown) = [''error'', ''success'', ''success'']
   \<and> ux_timers feedbackShown =
       [(10, AddShow 0), (10, AddShow 1), (5000, AutoHide 1000), (10, AddShow 2),
        (5000, AutoHide 1000)]
   \<and> map (\<lambda>e. (n_type e, n_show e))
       (container (foldl (\<lambda>s i. ux_timerFires i s) feedbackShown [0, 0, 1, 0, 0, 0, 0]))
       = [(''success'', True), (''success'', True)]
   \<and> ux_timers (foldl (\<lambda>s i. ux_timerFires i s) feedbackShown [0, 0, 1, 0, 0, 0, 0]) = []"
  by (simp add: feedbackShown_eq ux_timerFires_def hideNotification_def Let_def)


section \<open>Properties of the file name extraction\<close>

lemma startsWith_take: "startsWith s p = (take (length p) s = p)"
  by (induction s p rule: startsWith.induct) auto

lemma includes_js_append: "includes_js (pre @ p @ t) p"
proof (induction pre)
  case Nil
  have sw: "startsWith (p @ t) p"
    by (simp add: startsWith_take)
  then show ?case by (cases "p @ t") simp_all
next
  case (Cons a pre)
  then show ?case by simp
qed

lemma match_here_extend:
  assumes "match_here u = None" and "8 \<le> length u"
  shows "match_here (u @ CHR ''='' # w) = None
         \<or> match_here (u @ CHR ''='' # w) = Some (value_group w)"
proof (cases "startsWith u ''filename''")
  case False
  with assms(2) have "\<not> startsWith (u @ CHR ''='' # w) ''filename''"
    by (simp add: startsWith_take)
  then show ?thesis by (simp add: match_here_def)
next
  case True
  with assms(2) have sw: "startsWith (u @ CHR ''='' # w) ''filename''"
    by (simp add: startsWith_take)
  have dr: "drop 8 (u @ CHR ''='' # w) = drop 8 u @ CHR ''='' # w"
    using assms(2) by simp
  show ?thesis
  proof (cases "dropWhile name_char (drop 8 u)")
    case Nil
    then have "\<forall>x\<in>set (drop 8 u). name_char x"
      by (simp add: dropWhile_eq_Nil_conv)
    then have "dropWhile name_char (drop 8 u @ CHR ''='' # w) = CHR ''='' # w"
      by (simp add: dropWhile_append name_char_def)
    with sw dr show ?thesis by (simp add: match_here_def)
  next
    case (Cons c v)
    with True assms(1) have ne: "c \<noteq> CHR ''=''"
      by (auto simp: match_here_def split: if_splits)
    from Cons have "\<not> (\<forall>x\<in>set (drop 8 u). name_char x)"
      by (metis dropWhile_eq_Nil_conv list.distinct(1))
    then obtain x where "x \<in> set (drop 8 u)" "\<not> name_char x"
      by blast
    then have "dropWhile name_char (drop 8 u @ CHR ''='' # w)
        = dropWhile name_char (drop 8 u) @ CHR ''='' # w"
      by (rule dropWhile_append1)
    then have "dropWhile name_char (drop 8 u @ CHR ''='' # w) = c # (v @ CHR ''='' # w)"
      using Cons by simp
    with sw dr ne show ?thesis by (simp add: match_here_def)
  qed
qed

lemma match_here_filename: "match_here (''filename='' @ w) = Some (value_group w)"
  by (simp add: match_here_def name_char_def)

lemma regex_search_first:
  "regex_search (pre @ ''filename'') = None \<Longrightarrow>
   regex_search (pre @ ''filename='' @ w) = Some (value_group w)"
proof (induction pre)
  case Nil
  show ?case using match_here_filename [of w] by simp
next
  case (Cons a pre)
  from Cons.prems have m: "match_here ((a # pre) @ ''filename'') = None"
    and r: "regex_search (pre @ ''filename'') = None"
    by (auto split: option.splits)
  have "match_here (((a # pre) @ ''filename'') @ CHR ''='' # w) = None
        \<or> match_here (((a # pre) @ ''filename'') @ CHR ''='' # w) = Some (value_group w)"
    by (rule match_here_extend [OF m]) simp
  with Cons.IH [OF r] show ?case by auto
qed

lemma value_group_quoted:
  assumes "q = sq \<or> q = dq" and "q \<notin> set v" and "list_all dot_char v"
  shows "value_group (q # v @ q # rest) = q # v @ [q]"
proof -
  have "takeWhile (\<lambda>c. c \<noteq> q) (v @ q # rest) = v"
    using assms(2) by (simp add: takeWhile_append)  
  then show ?thesis
    using assms(1,3) by (auto simp: value_group_def quoted_alt_def)
qed

lemma value_group_unquoted:
  assumes "v \<noteq> []" and "hd v \<noteq> sq" and "hd v \<noteq> dq" and "list_all value_char v"
    and "rest = [] \<or> \<not> value_char (hd rest)"
  shows "value_group (v @ rest) = v"
proof -
  have tw: "takeWhile value_char (v @ rest) = v"
    using assms(4,5) by (cases rest) (auto simp: takeWhile_append list_all_iff)
  obtain a v' where v: "v = a # v'" using assms(1) by (cases v) auto
  with assms(2,3) tw show ?thesis
    by (simp add: value_group_def)
qed

lemma value_group_empty:
  assumes "rest = [] \<or> \<not> value_char (hd rest)"
  shows "value_group rest = []"
  using assms by (cases rest) (auto simp: value_group_def value_char_def)

lemma strip_quotes_quoted:
  "q = sq \<or> q = dq \<Longrightarrow> strip_quotes (q # v @ [q]) = filter (\<lambda>c. c \<noteq> sq \<and> c \<noteq> dq) v"
  by (auto simp: strip_quotes_def)

lemma extractFilename_found:
  assumes "regex_search (pre @ ''filename'') = None"
  shows "extractFilename (Some (pre @ ''filename='' @ w)) ft stamp =
         (if value_group w = [] then default_filename ft stamp else strip_quotes (value_group w))"
  using regex_search_first [OF assms, of w] includes_js_append [of pre "''filename=''" w]
  by (simp add: extractFilename_def)

text \<open>
  Claim C5, as amended. Take a header value in which no earlier place matches the
  pattern's \<^verbatim>\<open>filename...=\<close> before some occurrence of \<^verbatim>\<open>filename=\<close>. If a quoted value
  follows (closed by the same quote, no line terminator inside), extractFilename returns
  the text between the quotes without its quote characters. If an unquoted, non-empty
  value follows (up to a semicolon, a newline or the end), it returns that value without
  its quote characters. If the value is empty, if the header is absent, or if it does not
  contain \<^verbatim>\<open>filename=\<close> at all, it returns \<^verbatim>\<open>meeting_minutes_<date>.<ext>\<close>, where the date is
  the part of the ISO time stamp before the T and the extension is docx for the type
  word and pdf for every other type.
\<close>

theorem extractFilename_first_parameter:
  "(regex_search (pre @ ''filename'') = None \<and> (q = sq \<or> q = dq) \<and> q \<notin> set v
      \<and> list_all dot_char v
    \<longrightarrow> extractFilename (Some (pre @ ''filename='' @ q # v @ q # rest)) ft stamp
          = filter (\<lambda>c. c \<noteq> sq \<and> c \<noteq> dq) v)
   \<and> (regex_search (pre @ ''filename'') = None \<and> u \<noteq> [] \<and> hd u \<noteq> sq \<and> hd u \<noteq> dq
        \<and> list_all value_char u \<and> (rest = [] \<or> hd rest = CHR '';'' \<or> hd rest = nl)
      \<longrightarrow> extractFilename (Some (pre @ ''filename='' @ u @ rest)) ft stamp
            = filter (\<lambda>c. c \<noteq> sq \<and> c \<noteq> dq) u)
   \<and> (regex_search (pre @ ''filename'') = None
        \<and> (rest = [] \<or> hd rest = CHR '';'' \<or> hd rest = nl)
      \<longrightarrow> extractFilename (Some (pre @ ''filename='' @ rest)) ft stamp
            = ''meeting_minutes_'' @ takeWhile (\<lambda>c. c \<noteq> CHR ''T'') stamp @ ''.''
                @ (if ft = ''word'' then ''docx'' else ''pdf''))
   \<and> extractFilename None ft stamp
        = ''meeting_minutes_'' @ takeWhile (\<lambda>c. c \<noteq> CHR ''T'') stamp @ ''.''
            @ (if ft = ''word'' then ''docx'' else ''pdf'')
   \<and> (\<not> includes_js h ''filename=''
      \<longrightarrow> extractFilename (Some h) ft stamp
            = ''meeting_minutes_'' @ takeWhile (\<lambda>c. c \<noteq> CHR ''T'') stamp @ ''.''
                @ (if ft = ''word'' then ''docx'' else ''pdf''))"
proof (intro conjI impI)
  assume a: "regex_search (pre @ ''filename'') = None \<and> (q = sq \<or> q = dq) \<and> q \<notin> set v
      \<and> list_all dot_char v"
  then have g: "value_group (q # v @ q # rest) = q # v @ [q]"
    by (intro value_group_quoted) simp_all
  from a have r: "regex_search (pre @ ''filename'') = None"
    by simp
  from a extractFilename_found [OF r, of "q # v @ q # rest" ft stamp] g show "extractFilename (Some (pre @ ''filename='' @ q # v @ q # rest)) ft stamp
          = filter (\<lambda>c. c \<noteq> sq \<and> c \<noteq> dq) v"
    by (simp add: strip_quotes_quoted)
next
  assume a: "regex_search (pre @ ''filename'') = None \<and> u \<noteq> [] \<and> hd u \<noteq> sq \<and> hd u \<noteq> dq
        \<and> list_all value_char u \<and> (rest = [] \<or> hd rest = CHR '';'' \<or> hd rest = nl)"
  then have "rest = [] \<or> \<not> value_char (hd rest)"
    by (auto simp: value_char_def)
  with a have g: "value_group (u @ rest) = u"
    by (intro value_group_unquoted) simp_all
  from a have r: "regex_search (pre @ ''filename'') = None"
    by simp
  from a extractFilename_found [OF r, of "u @ rest" ft stamp] g
  show "extractFilename (Some (pre @ ''filename='' @ u @ rest)) ft stamp
            = filter (\<lambda>c. c \<noteq> sq \<and> c \<noteq> dq) u"
    by (simp add: strip_quotes_def)
next
  assume a: "regex_search (pre @ ''filename'') = None
        \<and> (rest = [] \<or> hd rest = CHR '';'' \<or> hd rest = nl)"
  then have "rest = [] \<or> \<not> value_char (hd rest)"
    by (auto simp: value_char_def)
  then have g: "value_group rest = []"
    by (rule value_group_empty)
  from a have r: "regex_search (pre @ ''filename'') = None"
    by simp
  from extractFilename_found [OF r, of rest ft stamp] g
  show "extractFilename (Some (pre @ ''filename='' @ rest)) ft stamp
            = ''meeting_minutes_'' @ takeWhile (\<lambda>c. c \<noteq> CHR ''T'') stamp @ ''.''
                @ (if ft = ''word'' then ''docx'' else ''pdf'')"
    by (simp add: default_filename_def)
next
  show "extractFilename None ft stamp
        = ''meeting_minutes_'' @ takeWhile (\<lambda>c. c \<noteq> CHR ''T'') stamp @ ''.''
            @ (if ft = ''word'' then ''docx'' else ''pdf'')"
    by (simp add: extractFilename_def default_filename_def)
next
  assume "\<not> includes_js h ''filename=''"
  then show "extractFilename (Some h) ft stamp
            = ''meeting_minutes_'' @ takeWhile (\<lambda>c. c \<noteq> CHR ''T'') stamp @ ''.''
                @ (if ft = ''word'' then ''docx'' else ''pdf'')"
    by (simp add: extractFilename_def default_filename_def)
qed

theorem extractFilename_first_parameter_witness:
  "regex_search ''attachment; filename'' = None
   \<and> extractFilename (Some (''attachment; filename='' @ dq # ''minutes_2024.docx'' @ [dq]))
        ''word'' ''2024-01-15T10:30:00.000Z'' = ''minutes_2024.docx''
   \<and> extractFilename (Some ''attachment; filename=notes.pdf; size=3'')
        ''pdf'' ''2024-01-15T10:30:00.000Z'' = ''notes.pdf''
   \<and> extractFilename (Some ''attachment; filename='')
        ''pdf'' ''2024-01-15T10:30:00.000Z'' = ''meeting_minutes_2024-01-15.pdf''
   \<and> extractFilename None ''word'' ''2024-01-15T10:30:00.000Z''
        = ''meeting_minutes_2024-01-15.docx''
   \<and> extractFilename (Some ''inline'') ''word'' ''2024-01-15T10:30:00.000Z''
        = ''meeting_minutes_2024-01-15.docx''"
proof -
  have h: "regex_search ''attachment; filename'' = None"
    by (simp add: match_here_def name_char_def)
  have d: "list_all dot_char ''minutes_2024.docx''" "list_all value_char ''notes.pdf''"
    by (simp_all add: dot_char_def value_char_def)
  have i: "\<not> includes_js ''inline'' ''filename=''"
    by simp
  show ?thesis
    using h d i
      extractFilename_first_parameter [where pre = "''attachment; ''" and q = dq
        and v = "''minutes_2024.docx''" and rest = "[]" and u = "[]"
        and ft = "''word''" and stamp = "''2024-01-15T10:30:00.000Z''" and h = "''inline''"]
      extractFilename_first_parameter [where pre = "''attachment; ''" and q = dq
        and v = "[]" and rest = "''; size=3''" and u = "''notes.pdf''"
        and ft = "''pdf''" and stamp = "''2024-01-15T10:30:00.000Z''" and h = "''inline''"]
      extractFilename_first_parameter [where pre = "''attachment; ''" and q = dq
        and v = "[]" and rest = "[]" and u = "[]"
        and ft = "''pdf''" and stamp = "''2024-01-15T10:30:00.000Z''" and h = "''inline''"]
    by simp
qed

text \<open>
  Claim C5 as stated fails when an earlier parameter matches the pattern: the header
  below contains \<^verbatim>\<open>filename="b.txt"\<close>, but the search stops at \<^verbatim>\<open>filename*=\<close> before it.
\<close>

theorem extractFilename_later_parameter_counterexample:
  "includes_js (''attachment; filename*=UTF-8'' @ [sq, sq] @ ''a.txt; filename='' @ dq # ''b.txt'' @ [dq]) ''filename=''
   \<and> extractFilename
        (Some (''attachment; filename*=UTF-8'' @ [sq, sq] @ ''a.txt; filename='' @ dq # ''b.txt'' @ [dq]))
        ''word'' ''2024-01-15T10:30:00.000Z'' = ''UTF-8a.txt''
   \<and> extractFilename
        (Some (''attachment; filename*=UTF-8'' @ [sq, sq] @ ''a.txt; filename='' @ dq # ''b.txt'' @ [dq]))
        ''word'' ''2024-01-15T10:30:00.000Z'' \<noteq> ''b.txt''"
  by (simp add: extractFilename_def match_here_def value_group_def quoted_alt_def
      strip_quotes_def name_char_def value_char_def dot_char_def)


section \<open>Properties of the progress manager\<close>

lemma math_min_finite:
  "math_min (JsFinite p) (JsFinite 100) = JsFinite (min p 100)"
  by (simp add: math_min_def min_def)

lemma math_min_not_gt: "\<not> js_lt (JsFinite 100) (math_min x (JsFinite 100))"
  by (cases x) (simp_all add: math_min_def)

lemma math_min_le: "x \<noteq> JsNaN \<Longrightarrow> js_le (math_min x (JsFinite 100)) (JsFinite 100)"
  by (cases x) (simp_all add: math_min_def)

lemma js_le_not_NaN: "js_le x y \<Longrightarrow> x \<noteq> JsNaN"
  by (cases x) simp_all

lemma cp_showProgress [simp]: "currentProgress (showProgress_pm s) = currentProgress s"
  by (simp add: showProgress_pm_def split: option.split)

lemma cp_clearInterval [simp]: "currentProgress (clearInterval_pm s) = currentProgress s"
  by (simp add: clearInterval_pm_def split: option.split)

lemma cp_hideProgress [simp]: "currentProgress (hideProgress_pm s) = currentProgress s"
  by (simp add: hideProgress_pm_def split: option.split)

lemma cp_updateProgress [simp]:
  "currentProgress (updateProgress_pm p m s) = math_min p (JsFinite 100)"
  by (simp add: updateProgress_pm_def Let_def split: option.split)

lemma cp_updateProgress_err [simp]:
  "currentProgress (updateProgress_err p m s) = math_min p (JsFinite 100)"
  by (simp add: updateProgress_err_def Let_def split: option.split)

lemma cp_startProgress [simp]: "currentProgress (startProgress pid s) = JsFinite 5"
  by (simp add: startProgress_def Let_def math_min_finite)

lemma cp_completeProgress [simp]: "currentProgress (completeProgress m s) = JsFinite 100"
  by (simp add: completeProgress_def Let_def math_min_finite)

lemma cp_errorProgress [simp]:
  "currentProgress (errorProgress m s) = math_min (currentProgress s) (JsFinite 100)"
  by (simp add: errorProgress_def Let_def split: option.split)

lemma cp_dispatch [simp]:
  "currentProgress (checkProgress_dispatch pid s) = currentProgress s"
  by (simp add: checkProgress_dispatch_def)

lemma cp_tick [simp]: "currentProgress (pm_tick h s) = currentProgress s"
  by (simp add: pm_tick_def split: option.split)

lemma cp_reset [simp]: "currentProgress (reset_pm s) = JsFinite 0"
  by (simp add: reset_pm_def Let_def split: option.split)

lemma cp_hideTimer [simp]:
  "currentProgress (pm_hideTimer_fires s) = currentProgress s"
  by (simp add: pm_hideTimer_fires_def)

lemma cp_resolved_not_gt:
  "\<not> js_lt (JsFinite 100) (currentProgress s) \<Longrightarrow>
   \<not> js_lt (JsFinite 100) (currentProgress (checkProgress_resolved outcome s))"
  by (simp add: checkProgress_resolved_def Let_def math_min_not_gt
      split: list.split pm_outcome.split)

lemma cp_resolved_le:
  assumes "js_le (currentProgress s) (JsFinite 100)" and "numeric_op (CheckResolved outcome)"
  shows "js_le (currentProgress (checkProgress_resolved outcome s)) (JsFinite 100)"
proof (cases outcome)
  case PFailed
  then show ?thesis
    using assms(1) js_le_not_NaN [OF assms(1)]
    by (simp add: checkProgress_resolved_def Let_def math_min_le split: list.split)
next
  case (PData d)
  with assms(2) have n: "p_progress d \<noteq> JsNaN"
    by simp
  have m: "math_min (p_progress d) (JsFinite 100) \<noteq> JsNaN"
    using math_min_le [OF n] by (rule js_le_not_NaN)
  show ?thesis
    using PData assms(1) n m
    by (simp add: checkProgress_resolved_def Let_def math_min_le split: list.split)
qed

lemma pm_step_not_gt:
  "\<not> js_lt (JsFinite 100) (currentProgress s) \<Longrightarrow>
   \<not> js_lt (JsFinite 100) (currentProgress (pm_step s op))"
  by (cases op) (simp_all add: cp_resolved_not_gt math_min_not_gt)

lemma pm_step_le:
  assumes "js_le (currentProgress s) (JsFinite 100)" and "numeric_op op"
  shows "js_le (currentProgress (pm_step s op)) (JsFinite 100)"
  using assms js_le_not_NaN [OF assms(1)]
  by (cases op) (simp_all add: cp_resolved_le math_min_le)

lemma pm_run_not_gt:
  "\<not> js_lt (JsFinite 100) (currentProgress s) \<Longrightarrow>
   \<not> js_lt (JsFinite 100) (currentProgress (pm_run s ops))"
  unfolding pm_run_def
  by (induction ops arbitrary: s) (simp_all add: pm_step_not_gt)

lemma pm_run_le:
  "js_le (currentProgress s) (JsFinite 100) \<Longrightarrow> list_all numeric_op ops \<Longrightarrow>
   js_le (currentProgress (pm_run s ops)) (JsFinite 100)"
  unfolding pm_run_def
  by (induction ops arbitrary: s) (simp_all add: pm_step_le)

text \<open>
  Claim C9, as amended. After \<open>updateProgress(percentage, message)\<close> with a finite
  percentage the stored currentProgress is exactly 100 when the percentage is above 100,
  and the percentage itself when it is at most 100, also when that is lower than the
  value stored before or negative. Whatever the percentage (NaN and the infinities
  included), and after every sequence of operations on a freshly constructed manager,
  currentProgress is never greater than 100. It is at most 100 after every sequence of
  operations in which each percentage handed to the manager, by a caller or in a status
  answer, is a number other than NaN.
\<close>

theorem updateProgress_clamped:
  "(p > 100 \<longrightarrow> currentProgress (updateProgress_pm (JsFinite p) m s) = JsFinite 100)
   \<and> (p \<le> 100 \<longrightarrow> currentProgress (updateProgress_pm (JsFinite p) m s) = JsFinite p)
   \<and> \<not> js_lt (JsFinite 100) (currentProgress (updateProgress_pm x m s))
   \<and> \<not> js_lt (JsFinite 100) (currentProgress (pm_run (pm_new c f t) ops))
   \<and> (list_all numeric_op ops
        \<longrightarrow> js_le (currentProgress (pm_run (pm_new c f t) ops)) (JsFinite 100))"
proof -
  have i: "currentProgress (pm_new c f t) = JsFinite 0"
    by (simp add: pm_new_def)
  have a: "\<not> js_lt (JsFinite 100) (currentProgress (pm_run (pm_new c f t) ops))"
    by (rule pm_run_not_gt) (simp add: i)
  have b: "list_all numeric_op ops \<Longrightarrow>
      js_le (currentProgress (pm_run (pm_new c f t) ops)) (JsFinite 100)"
    by (rule pm_run_le) (simp_all add: i)
  show ?thesis
    using a b by (simp add: math_min_finite math_min_not_gt)
qed

theorem updateProgress_clamped_witness:
  "currentProgress (updateProgress_pm (JsFinite 250) [] (pm_new None None None)) = JsFinite 100
   \<and> currentProgress (updateProgress_pm (JsFinite 30) ''half''
        (updateProgress_pm (JsFinite 80) ''most'' (pm_new (Some ''none'') None None)))
       = JsFinite 30
   \<and> currentProgress (updateProgress_pm (JsFinite (- 5)) [] (pm_new None None None))
       = JsFinite (- 5)
   \<and> list_all numeric_op
        [StartProgress ''p1'', UpdateProgress (JsFinite 250) [], ErrorProgress ''x'']
   \<and> js_le (currentProgress (pm_run (pm_new None None None)
        [StartProgress ''p1'', UpdateProgress (JsFinite 250) [], ErrorProgress ''x'']))
        (JsFinite 100)"
  using
    updateProgress_clamped [of 250 "[]" "pm_new None None None" JsNaN None None None "[]"]
    updateProgress_clamped [of 30 "''half''"
      "updateProgress_pm (JsFinite 80) ''most'' (pm_new (Some ''none'') None None)"
      JsNaN None None None
      "[StartProgress ''p1'', UpdateProgress (JsFinite 250) [], ErrorProgress ''x'']"]
    updateProgress_clamped [of "- 5" "[]" "pm_new None None None" JsNaN None None None "[]"]
  by simp

text \<open>
  Claim C9 as stated fails: a status answer that reports success and carries no numeric
  progress is handed to updateProgress unchecked. The stored value is then NaN, and NaN
  is not at most 100.
\<close>

theorem progress_without_number_counterexample:
  "currentProgress
     (pm_run (pm_new None None None)
        [StartProgress ''p1'', IntervalTick 1,
         CheckResolved (PData \<lparr>p_success = True, p_progress = JsNaN, p_message = [],
                                p_status = ''processing''\<rparr>)]) = JsNaN
   \<and> \<not> js_le
        (currentProgress
           (pm_run (pm_new None None None)
              [StartProgress ''p1'', IntervalTick 1,
               CheckResolved (PData \<lparr>p_success = True, p_progress = JsNaN, p_message = [],
                                      p_status = ''processing''\<rparr>)]))
        (JsFinite 100)"
  by (simp add: pm_run_def pm_new_def startProgress_def pm_tick_def checkProgress_dispatch_def
      checkProgress_resolved_def updateProgress_pm_def showProgress_pm_def math_min_def Let_def)

end
